theory Spec2Isabelle
  imports Main "HOL-Library.Word" "HOL-Library.Signed_Division"
begin

section \<open>Machine integers of the launch-configuration header\<close>

text \<open>
  \<^verbatim>\<open>gpu_launch_config.h\<close> computes with the C++ type \<^verbatim>\<open>int\<close> (32 bits on every CUDA and
  ROCm target) and stores its results in \<^verbatim>\<open>dim3\<close>, three \<^verbatim>\<open>unsigned int\<close>. Both are
  32-bit words here. An \<^verbatim>\<open>int\<close> is read with \<open>sint\<close>, an \<^verbatim>\<open>unsigned int\<close> with \<open>uint\<close>; the
  conversion of an \<^verbatim>\<open>int\<close> to \<^verbatim>\<open>unsigned int\<close> in \<^verbatim>\<open>dim3(xdim, ydim, 1)\<close> keeps the bit
  pattern. Addition, subtraction and multiplication are the operations of the word type:
  they wrap around modulo \<open>2 ^ 32\<close>, which is what the compilers of the two back ends
  emit for an overflowing \<^verbatim>\<open>int\<close> operation (the C++ standard leaves it undefined).
  Integer division truncates towards zero and traps on a zero divisor and on
  \<^verbatim>\<open>INT_MIN / -1\<close>; both traps are results of the model.
\<close>

type_synonym int32 = "32 word"
type_synonym uint32 = "32 word"

datatype error = CheckFailure | DivisionByZero | DivisionOverflow

definition INT_MAX :: int where
  "INT_MAX = 2147483647"

definition INT_MIN :: int where
  "INT_MIN = - 2147483648"

text \<open>\<^verbatim>\<open>a < b\<close> and \<^verbatim>\<open>a <= b\<close> on \<^verbatim>\<open>int\<close>.\<close>

definition lt :: "int32 \<Rightarrow> int32 \<Rightarrow> bool" where
  "lt a b = (sint a < sint b)"

definition le :: "int32 \<Rightarrow> int32 \<Rightarrow> bool" where
  "le a b = (sint a \<le> sint b)"

text \<open>\<^verbatim>\<open>std::min(a, b)\<close> is \<^verbatim>\<open>(b < a) ? b : a\<close> and \<^verbatim>\<open>std::max(a, b)\<close> is
  \<^verbatim>\<open>(a < b) ? b : a\<close>; the initializer-list form \<^verbatim>\<open>std::min({a, b, c})\<close> returns the
  leftmost smallest element.\<close>

definition std_min :: "int32 \<Rightarrow> int32 \<Rightarrow> int32" where
  "std_min a b = (if lt b a then b else a)"

definition std_max :: "int32 \<Rightarrow> int32 \<Rightarrow> int32" where
  "std_max a b = (if lt a b then b else a)"

definition std_min3 :: "int32 \<Rightarrow> int32 \<Rightarrow> int32 \<Rightarrow> int32" where
  "std_min3 a b c = std_min (std_min a b) c"

text \<open>A trap or a failed \<^verbatim>\<open>CHECK\<close> ends the call: \<open>bind_err m f\<close> continues with \<open>f\<close>
  only when \<open>m\<close> has a value.\<close>

definition bind_err :: "error + 'a \<Rightarrow> ('a \<Rightarrow> error + 'b) \<Rightarrow> error + 'b" where
  "bind_err m f = (case m of Inl e \<Rightarrow> Inl e | Inr v \<Rightarrow> f v)"

text \<open>\<^verbatim>\<open>a / b\<close> on \<^verbatim>\<open>int\<close>.\<close>

definition div_int :: "int32 \<Rightarrow> int32 \<Rightarrow> error + int32" where
  "div_int a b =
     (if b = 0 then Inl DivisionByZero
      else if sint a = INT_MIN \<and> sint b = - 1 then Inl DivisionOverflow
      else Inr (word_of_int (sint a sdiv sint b)))"

text \<open>\<^verbatim>\<open>inline int DivUp(int a, int b) { return (a + b - 1) / b; }\<close>\<close>

definition DivUp :: "int32 \<Rightarrow> int32 \<Rightarrow> error + int32" where
  "DivUp a b = div_int (a + b - 1) b"

section \<open>Collaborators: the device, its properties and the occupancy queries\<close>

text \<open>The two back ends are chosen at compile time (\<^verbatim>\<open>#if GOOGLE_CUDA\<close>,
  \<^verbatim>\<open>#elif TENSORFLOW_USE_ROCM\<close>).\<close>

datatype backend = GOOGLE_CUDA | TENSORFLOW_USE_ROCM

text \<open>What the functions read from \<^verbatim>\<open>Eigen::GpuDevice\<close>: \<^verbatim>\<open>getNumCudaMultiProcessors()\<close>,
  \<^verbatim>\<open>maxCudaThreadsPerMultiProcessor()\<close> and \<^verbatim>\<open>maxCudaThreadsPerBlock()\<close> (on ROCm the
  methods of the same names with \<^verbatim>\<open>Hip\<close>).\<close>

record GpuDevice =
  getNumMultiProcessors :: int32
  maxThreadsPerMultiProcessor :: int32
  maxThreadsPerBlock :: int32

text \<open>The fields of \<^verbatim>\<open>cudaDeviceProp\<close> (\<^verbatim>\<open>hipDeviceProp_t\<close>) that are read: the arrays
  \<^verbatim>\<open>maxThreadsDim[3]\<close> and \<^verbatim>\<open>maxGridSize[3]\<close>.\<close>

record DeviceProp =
  maxThreadsDim0 :: int32
  maxThreadsDim1 :: int32
  maxThreadsDim2 :: int32
  maxGridSize0 :: int32
  maxGridSize1 :: int32
  maxGridSize2 :: int32

datatype cudaError_t = cudaSuccess | cudaErrorFailure

text \<open>The runtime the templates call: \<^verbatim>\<open>cudaGetDevice\<close> followed by
  \<^verbatim>\<open>cudaGetDeviceProperties\<close> yields \<open>deviceProp\<close>;
  \<^verbatim>\<open>cudaOccupancyMaxPotentialBlockSize(&block_count, &thread_per_block, func,
  dynamic_shared_memory_size, block_size_limit)\<close> yields the error code and the two
  numbers it writes; \<^verbatim>\<open>cudaOccupancyMaxActiveBlocksPerMultiprocessor(&block_count, func,
  fixed_block_size, dynamic_shared_memory_size)\<close> yields the error code and one number.
  The kernel has the type \<open>'f\<close>, \<^verbatim>\<open>size_t\<close> is a 64-bit word.\<close>

record 'f Runtime =
  deviceProp :: DeviceProp
  OccupancyMaxPotentialBlockSize :: "'f \<Rightarrow> 64 word \<Rightarrow> int32 \<Rightarrow> cudaError_t \<times> int32 \<times> int32"
  OccupancyMaxActiveBlocksPerMultiprocessor :: "'f \<Rightarrow> int32 \<Rightarrow> 64 word \<Rightarrow> cudaError_t \<times> int32"

section \<open>One-dimensional launch configurations\<close>

text \<open>The members of \<^verbatim>\<open>GpuLaunchConfig\<close> are \<^verbatim>\<open>int\<close>; they default to \<open>-1\<close> and every
  function that returns assigns all three.\<close>

record GpuLaunchConfig =
  virtual_thread_count :: int32
  thread_per_block :: int32
  block_count :: int32

text \<open>The heuristic \<^verbatim>\<open>GetGpuLaunchConfig(work_element_count, d)\<close>. \<^verbatim>\<open>CHECK_GT\<close> aborts the
  process when it fails. The two back ends run the same statements.\<close>

definition GetGpuLaunchConfig :: "int32 \<Rightarrow> GpuDevice \<Rightarrow> error + GpuLaunchConfig" where
  "GetGpuLaunchConfig work_element_count d =
     (if \<not> lt 0 work_element_count then Inl CheckFailure
      else
        let virtual_thread_count = work_element_count;
            physical_thread_count =
              std_min (getNumMultiProcessors d * maxThreadsPerMultiProcessor d)
                virtual_thread_count;
            thread_per_block = std_min 1024 (maxThreadsPerBlock d)
        in bind_err (DivUp physical_thread_count thread_per_block) (\<lambda>q.
           let block_count = std_min q (getNumMultiProcessors d)
           in Inr \<lparr>virtual_thread_count = virtual_thread_count,
                   thread_per_block = thread_per_block,
                   block_count = block_count\<rparr>))"

text \<open>The occupancy-aware overload \<^verbatim>\<open>GetGpuLaunchConfig(work_element_count, d, func,
  dynamic_shared_memory_size, block_size_limit)\<close>. The \<open>case\<close> on the back end is the
  \<^verbatim>\<open>#if GOOGLE_CUDA ... #elif TENSORFLOW_USE_ROCM ... #endif\<close> block, which leaves
  \<^verbatim>\<open>block_count\<close> and \<^verbatim>\<open>thread_per_block\<close>; \<^verbatim>\<open>CHECK_EQ(err, cudaSuccess)\<close> aborts on a
  failed query.\<close>

definition GetGpuLaunchConfig_occupancy ::
  "backend \<Rightarrow> int32 \<Rightarrow> GpuDevice \<Rightarrow> 'f Runtime \<Rightarrow> 'f \<Rightarrow> 64 word \<Rightarrow> int32
     \<Rightarrow> error + GpuLaunchConfig" where
  "GetGpuLaunchConfig_occupancy be work_element_count d rt func dynamic_shared_memory_size
       block_size_limit =
     (if \<not> lt 0 work_element_count then Inl CheckFailure
      else
        bind_err
          (case be of
             GOOGLE_CUDA \<Rightarrow>
               (let (err, occupancy) =
                      OccupancyMaxPotentialBlockSize rt func dynamic_shared_memory_size
                        block_size_limit
                in if err \<noteq> cudaSuccess then Inl CheckFailure else Inr occupancy)
           | TENSORFLOW_USE_ROCM \<Rightarrow>
               (let physical_thread_count =
                      std_min (getNumMultiProcessors d * maxThreadsPerMultiProcessor d)
                        work_element_count;
                    thread_per_block = std_min 1024 (maxThreadsPerBlock d)
                in bind_err (DivUp physical_thread_count thread_per_block) (\<lambda>q.
                   Inr (std_min q (getNumMultiProcessors d), thread_per_block))))
          (\<lambda>(block_count, thread_per_block).
             bind_err (DivUp work_element_count thread_per_block) (\<lambda>q.
             Inr \<lparr>virtual_thread_count = work_element_count,
                  thread_per_block = thread_per_block,
                  block_count = std_min block_count q\<rparr>)))"

text \<open>\<^verbatim>\<open>GetGpuLaunchConfigFixedBlockSize(work_element_count, d, func,
  dynamic_shared_memory_size, fixed_block_size)\<close>. On CUDA the clamp by
  \<^verbatim>\<open>DivUp(work_element_count, fixed_block_size)\<close> is inside the \<^verbatim>\<open>#if\<close> branch; the ROCm
  branch computes the block count of the heuristic with its own local
  \<^verbatim>\<open>thread_per_block\<close>.\<close>

definition GetGpuLaunchConfigFixedBlockSize ::
  "backend \<Rightarrow> int32 \<Rightarrow> GpuDevice \<Rightarrow> 'f Runtime \<Rightarrow> 'f \<Rightarrow> 64 word \<Rightarrow> int32
     \<Rightarrow> error + GpuLaunchConfig" where
  "GetGpuLaunchConfigFixedBlockSize be work_element_count d rt func dynamic_shared_memory_size
       fixed_block_size =
     (if \<not> lt 0 work_element_count then Inl CheckFailure
      else
        bind_err
          (case be of
             GOOGLE_CUDA \<Rightarrow>
               (let (err, active_blocks) =
                      OccupancyMaxActiveBlocksPerMultiprocessor rt func fixed_block_size
                        dynamic_shared_memory_size
                in if err \<noteq> cudaSuccess then Inl CheckFailure
                   else bind_err (DivUp work_element_count fixed_block_size) (\<lambda>q.
                        Inr (std_min (active_blocks * getNumMultiProcessors d) q)))
           | TENSORFLOW_USE_ROCM \<Rightarrow>
               (let physical_thread_count =
                      std_min (getNumMultiProcessors d * maxThreadsPerMultiProcessor d)
                        work_element_count;
                    thread_per_block = std_min 1024 (maxThreadsPerBlock d)
                in bind_err (DivUp physical_thread_count thread_per_block) (\<lambda>q.
                   Inr (std_min q (getNumMultiProcessors d)))))
          (\<lambda>block_count.
             Inr \<lparr>virtual_thread_count = work_element_count,
                  thread_per_block = fixed_block_size,
                  block_count = block_count\<rparr>))"

section \<open>Two- and three-dimensional launch configurations\<close>

text \<open>\<^verbatim>\<open>dim3\<close> has the members \<^verbatim>\<open>x\<close>, \<^verbatim>\<open>y\<close> and \<^verbatim>\<open>z\<close>, here \<open>dim3_x\<close>, \<open>dim3_y\<close> and
  \<open>dim3_z\<close>. The members of \<^verbatim>\<open>Gpu2DLaunchConfig\<close> default to \<^verbatim>\<open>dim3(0, 0, 0)\<close>.\<close>

datatype dim3 = dim3 (dim3_x: uint32) (dim3_y: uint32) (dim3_z: uint32)

record Gpu2DLaunchConfig =
  virtual_thread_count :: dim3
  thread_per_block :: dim3
  block_count :: dim3

type_synonym Gpu3DLaunchConfig = Gpu2DLaunchConfig

definition config :: Gpu2DLaunchConfig where
  "config = \<lparr>virtual_thread_count = dim3 0 0 0,
             thread_per_block = dim3 0 0 0,
             block_count = dim3 0 0 0\<rparr>"

text \<open>The heuristic \<^verbatim>\<open>GetGpu2DLaunchConfig(xdim, ydim, d)\<close>; the two back ends run the same
  statements. The divisions are taken in the order in which the source text has them.\<close>

definition kThreadsPerBlock :: int32 where
  "kThreadsPerBlock = 256"

definition GetGpu2DLaunchConfig :: "int32 \<Rightarrow> int32 \<Rightarrow> GpuDevice \<Rightarrow> error + Gpu2DLaunchConfig" where
  "GetGpu2DLaunchConfig xdim ydim d =
     (if le xdim 0 \<or> le ydim 0 then Inr config
      else
        let block_cols = std_min xdim kThreadsPerBlock
        in bind_err (div_int kThreadsPerBlock block_cols) (\<lambda>q1.
        let block_rows = std_max q1 1;
            physical_thread_count = getNumMultiProcessors d * maxThreadsPerMultiProcessor d
        in bind_err (div_int physical_thread_count kThreadsPerBlock) (\<lambda>q2.
        let max_blocks = std_max q2 1
        in bind_err (DivUp xdim block_cols) (\<lambda>q3.
        let grid_x = std_min q3 max_blocks
        in bind_err (div_int max_blocks grid_x) (\<lambda>q4.
           bind_err (div_int ydim block_rows) (\<lambda>q5.
           Inr \<lparr>virtual_thread_count = dim3 xdim ydim 1,
                thread_per_block = dim3 block_cols block_rows 1,
                block_count = dim3 grid_x (std_min q4 (std_max q5 1)) 1\<rparr>))))))"

text \<open>The occupancy-aware \<^verbatim>\<open>GetGpu3DLaunchConfig(xdim, ydim, zdim, d, func,
  dynamic_shared_memory_size, block_size_limit)\<close> in three parts, in the order of the
  source text. First the statements that spread \<^verbatim>\<open>thread_per_block\<close> over the axes
  (\<^verbatim>\<open>threadsx\<close>, \<^verbatim>\<open>threadsy\<close>, \<^verbatim>\<open>threadsz\<close>).\<close>

definition distribute_threads ::
  "int32 \<Rightarrow> int32 \<Rightarrow> int32 \<Rightarrow> int32 \<Rightarrow> int32 \<Rightarrow> int32 \<Rightarrow> int32
     \<Rightarrow> error + int32 \<times> int32 \<times> int32" where
  "distribute_threads xdim ydim zdim =
     (\<lambda>thread_per_block xthreadlimit ythreadlimit zthreadlimit.
      let threadsx = std_min3 xdim thread_per_block xthreadlimit
      in bind_err (div_int thread_per_block threadsx) (\<lambda>q1.
      let threadsy = std_min3 ydim (std_max q1 1) ythreadlimit
      in bind_err (div_int thread_per_block (threadsx * threadsy)) (\<lambda>q2.
      let threadsz = std_min3 zdim (std_max q2 1) zthreadlimit
      in Inr (threadsx, threadsy, threadsz))))"

text \<open>Then the statements that spread \<^verbatim>\<open>block_count\<close> over the axes (\<^verbatim>\<open>blocksx\<close>,
  \<^verbatim>\<open>blocksy\<close>, \<^verbatim>\<open>blocksz\<close>); the elements of an initializer list are evaluated from left
  to right.\<close>

definition distribute_blocks ::
  "int32 \<Rightarrow> int32 \<Rightarrow> int32 \<Rightarrow> int32 \<Rightarrow> int32 \<times> int32 \<times> int32 \<Rightarrow> int32 \<Rightarrow> int32 \<Rightarrow> int32
     \<Rightarrow> error + int32 \<times> int32 \<times> int32" where
  "distribute_blocks xdim ydim zdim =
     (\<lambda>block_count threads xgridlimit ygridlimit zgridlimit.
      let (threadsx, threadsy, threadsz) = threads
      in bind_err (DivUp xdim threadsx) (\<lambda>q3.
      let blocksx = std_min3 block_count q3 xgridlimit
      in bind_err (DivUp block_count blocksx) (\<lambda>q4.
         bind_err (DivUp ydim threadsy) (\<lambda>q5.
      let blocksy = std_min3 q4 q5 ygridlimit
      in bind_err (DivUp block_count (blocksx * blocksy)) (\<lambda>q6.
         bind_err (DivUp zdim threadsz) (\<lambda>q7.
      let blocksz = std_min3 q6 q7 zgridlimit
      in Inr (blocksx, blocksy, blocksz)))))))"

text \<open>The function itself: the early return, the limits read from the device properties, the
  \<^verbatim>\<open>#if\<close> block that leaves \<^verbatim>\<open>block_count\<close> and \<^verbatim>\<open>thread_per_block\<close> (the \<open>case\<close> on
  the back end), the two distributions and the three assignments to \<^verbatim>\<open>config\<close>.\<close>

definition GetGpu3DLaunchConfig ::
  "backend \<Rightarrow> int32 \<Rightarrow> int32 \<Rightarrow> int32 \<Rightarrow> GpuDevice \<Rightarrow> 'f Runtime \<Rightarrow> 'f \<Rightarrow> 64 word \<Rightarrow> int32
     \<Rightarrow> error + Gpu3DLaunchConfig" where
  "GetGpu3DLaunchConfig be xdim ydim zdim d rt func dynamic_shared_memory_size
       block_size_limit =
     (if le xdim 0 \<or> le ydim 0 \<or> le zdim 0 then Inr config
      else
        let xthreadlimit = maxThreadsDim0 (deviceProp rt);
            ythreadlimit = maxThreadsDim1 (deviceProp rt);
            zthreadlimit = maxThreadsDim2 (deviceProp rt);
            xgridlimit = maxGridSize0 (deviceProp rt);
            ygridlimit = maxGridSize1 (deviceProp rt);
            zgridlimit = maxGridSize2 (deviceProp rt)
        in
        bind_err
          (case be of
             GOOGLE_CUDA \<Rightarrow>
               (let (err, occupancy) =
                      OccupancyMaxPotentialBlockSize rt func dynamic_shared_memory_size
                        block_size_limit
                in if err \<noteq> cudaSuccess then Inl CheckFailure else Inr occupancy)
           | TENSORFLOW_USE_ROCM \<Rightarrow>
               (let physical_thread_count =
                      getNumMultiProcessors d * maxThreadsPerMultiProcessor d;
                    thread_per_block = std_min 1024 (maxThreadsPerBlock d)
                in bind_err (DivUp physical_thread_count thread_per_block) (\<lambda>q.
                   Inr (std_min q (getNumMultiProcessors d), thread_per_block))))
          (\<lambda>(block_count, thread_per_block).
        bind_err
          (distribute_threads xdim ydim zdim thread_per_block
             xthreadlimit ythreadlimit zthreadlimit)
          (\<lambda>(threadsx, threadsy, threadsz).
        bind_err
          (distribute_blocks xdim ydim zdim block_count (threadsx, threadsy, threadsz)
             xgridlimit ygridlimit zgridlimit)
          (\<lambda>(blocksx, blocksy, blocksz).
        Inr \<lparr>virtual_thread_count = dim3 xdim ydim zdim,
             thread_per_block = dim3 threadsx threadsy threadsz,
             block_count = dim3 blocksx blocksy blocksz\<rparr>))))"

text \<open>The occupancy-aware overload \<^verbatim>\<open>GetGpu2DLaunchConfig(xdim, ydim, d, func,
  dynamic_shared_memory_size, block_size_limit)\<close>.\<close>

definition GetGpu2DLaunchConfig_occupancy ::
  "backend \<Rightarrow> int32 \<Rightarrow> int32 \<Rightarrow> GpuDevice \<Rightarrow> 'f Runtime \<Rightarrow> 'f \<Rightarrow> 64 word \<Rightarrow> int32
     \<Rightarrow> error + Gpu2DLaunchConfig" where
  "GetGpu2DLaunchConfig_occupancy be xdim ydim d rt func dynamic_shared_memory_size
       block_size_limit =
     GetGpu3DLaunchConfig be xdim ydim 1 d rt func dynamic_shared_memory_size block_size_limit"

section \<open>The specification's formulas\<close>

text \<open>The specification computes with mathematical integers. Its ceiling division is
  \<open>ceil_div(a, b) = floor((a + b - 1) / b)\<close>.\<close>

definition ceil_div :: "int \<Rightarrow> int \<Rightarrow> int" where
  "ceil_div a b = (a + b - 1) div b"

text \<open>The three members of a \<^verbatim>\<open>dim3\<close> as the numbers a kernel launch receives.\<close>

definition dim3_value :: "dim3 \<Rightarrow> int \<times> int \<times> int" where
  "dim3_value v = (uint (dim3_x v), uint (dim3_y v), uint (dim3_z v))"

text \<open>The specification's greedy distribution of \<open>threads_per_block\<close> over the axes, in the
  order x, y, z.\<close>

definition spec_threads3D ::
  "int \<Rightarrow> int \<Rightarrow> int \<Rightarrow> int \<Rightarrow> int \<Rightarrow> int \<Rightarrow> int \<Rightarrow> int \<times> int \<times> int" where
  "spec_threads3D x_extent y_extent z_extent threads_per_block
       x_thread_limit y_thread_limit z_thread_limit =
     (let threads_x = min x_extent (min threads_per_block x_thread_limit);
          threads_y = min y_extent (min (max (threads_per_block div threads_x) 1) y_thread_limit);
          threads_z = min z_extent
            (min (max (threads_per_block div (threads_x * threads_y)) 1) z_thread_limit)
      in (threads_x, threads_y, threads_z))"

text \<open>The specification's distribution of the block count over the axes.\<close>

definition spec_blocks3D ::
  "int \<Rightarrow> int \<Rightarrow> int \<Rightarrow> int \<Rightarrow> int \<times> int \<times> int \<Rightarrow> int \<Rightarrow> int \<Rightarrow> int \<Rightarrow> int \<times> int \<times> int" where
  "spec_blocks3D x_extent y_extent z_extent blocks threads x_grid_limit y_grid_limit
       z_grid_limit =
     (let (threads_x, threads_y, threads_z) = threads;
          blocks_x = min blocks (min (ceil_div x_extent threads_x) x_grid_limit);
          blocks_y = min (ceil_div blocks blocks_x) (min (ceil_div y_extent threads_y) y_grid_limit);
          blocks_z = min (ceil_div blocks (blocks_x * blocks_y))
            (min (ceil_div z_extent threads_z) z_grid_limit)
      in (blocks_x, blocks_y, blocks_z))"

text \<open>The specification's two-dimensional heuristic: the block shape and the grid shape for
  the extents and the device's physical thread count.\<close>

definition spec_block2D :: "int \<Rightarrow> int \<times> int \<times> int" where
  "spec_block2D x_extent =
     (let block_cols = min x_extent 256;
          block_rows = max (256 div block_cols) 1
      in (block_cols, block_rows, 1))"

definition spec_grid2D :: "int \<Rightarrow> int \<Rightarrow> int \<Rightarrow> int \<times> int \<times> int" where
  "spec_grid2D x_extent y_extent device_physical_thread_count =
     (let (block_cols, block_rows, depth) = spec_block2D x_extent;
          max_blocks = max (device_physical_thread_count div 256) 1;
          grid_x = min (ceil_div x_extent block_cols) max_blocks;
          grid_y = min (max_blocks div grid_x) (max (y_extent div block_rows) 1)
      in (grid_x, grid_y, 1))"

section \<open>Devices used in the examples\<close>

text \<open>A device with 80 multiprocessors, 2048 threads per multiprocessor and 1024 threads
  per block; the same with 2048 threads per block; one whose physical thread count is
  20480; and one whose product of the two counts is \<open>2 ^ 32\<close>.\<close>

definition device_80 :: GpuDevice where
  "device_80 = \<lparr>getNumMultiProcessors = 80, maxThreadsPerMultiProcessor = 2048,
                 maxThreadsPerBlock = 1024\<rparr>"

definition device_80_2048 :: GpuDevice where
  "device_80_2048 = \<lparr>getNumMultiProcessors = 80, maxThreadsPerMultiProcessor = 2048,
                      maxThreadsPerBlock = 2048\<rparr>"

definition device_10 :: GpuDevice where
  "device_10 = \<lparr>getNumMultiProcessors = 10, maxThreadsPerMultiProcessor = 2048,
                 maxThreadsPerBlock = 1024\<rparr>"

definition device_65536 :: GpuDevice where
  "device_65536 = \<lparr>getNumMultiProcessors = 65536, maxThreadsPerMultiProcessor = 65536,
                    maxThreadsPerBlock = 1024\<rparr>"

text \<open>Device properties with the thread limits (1024, 1024, 64) and the grid limits
  \<open>2 ^ 31 - 1\<close>, and a runtime whose occupancy queries answer (13, 1024) and 2.\<close>

definition example_prop :: DeviceProp where
  "example_prop = \<lparr>maxThreadsDim0 = 1024, maxThreadsDim1 = 1024, maxThreadsDim2 = 64,
                    maxGridSize0 = 2147483647, maxGridSize1 = 2147483647,
                    maxGridSize2 = 2147483647\<rparr>"

definition example_runtime :: "unit Runtime" where
  "example_runtime =
     \<lparr>deviceProp = example_prop,
      OccupancyMaxPotentialBlockSize = (\<lambda>func smem limit. (cudaSuccess, 13, 1024)),
      OccupancyMaxActiveBlocksPerMultiprocessor = (\<lambda>func block_size smem. (cudaSuccess, 2))\<rparr>"

text \<open>A runtime whose queries fail.\<close>

definition failing_runtime :: "unit Runtime" where
  "failing_runtime =
     \<lparr>deviceProp = example_prop,
      OccupancyMaxPotentialBlockSize = (\<lambda>func smem limit. (cudaErrorFailure, 0, 0)),
      OccupancyMaxActiveBlocksPerMultiprocessor =
        (\<lambda>func block_size smem. (cudaErrorFailure, 0))\<rparr>"

section \<open>Reading machine integers\<close>

lemma sint_range: "INT_MIN \<le> sint (w::int32) \<and> sint w \<le> INT_MAX"
  using sint_ge[of w] sint_lt[of w] by (simp add: INT_MIN_def INT_MAX_def)

lemma sint_of_int_32:
  "INT_MIN \<le> i \<Longrightarrow> i \<le> INT_MAX \<Longrightarrow> sint (word_of_int i :: int32) = i"
  by (simp add: INT_MIN_def INT_MAX_def sint_sbintrunc' signed_take_bit_int_eq_self)

lemma sint_mult_32:
  "INT_MIN \<le> sint a * sint b \<Longrightarrow> sint a * sint b \<le> INT_MAX
     \<Longrightarrow> sint (a * b :: int32) = sint a * sint b"
  using sint_of_int_32[of "sint a * sint b"] by simp

lemma uint_sint_32:
  assumes "0 \<le> sint (w::int32)"
  shows "uint w = sint w"
proof -
  have "uint w = uint (word_of_int (sint w) :: int32)" by simp
  also have "\<dots> = take_bit 32 (sint w)" by (simp only: uint_word_of_int_eq) simp
  also have "\<dots> = sint w"
    using assms sint_range[of w] by (simp add: take_bit_int_eq_self INT_MAX_def)
  finally show ?thesis .
qed

lemma sint_std_min: "sint (std_min a b) = min (sint a) (sint b)"
  by (simp add: std_min_def lt_def min_def)

lemma sint_std_max: "sint (std_max a b) = max (sint a) (sint b)"
  by (simp add: std_max_def lt_def max_def)

lemma sint_std_min3: "sint (std_min3 a b c) = min (sint a) (min (sint b) (sint c))"
  by (simp add: std_min3_def sint_std_min min.assoc)

lemma bind_err_Inr [simp]: "bind_err (Inr v) f = f v"
  by (simp add: bind_err_def)

lemma bind_err_Inl [simp]: "bind_err (Inl e) f = Inl e"
  by (simp add: bind_err_def)

section \<open>Division\<close>

lemma sdiv_nonneg: "0 \<le> a \<Longrightarrow> 0 < b \<Longrightarrow> (a::int) sdiv b = a div b"
  by (simp add: signed_divide_int_def sgn_if)

lemma sdiv_neg: "a < 0 \<Longrightarrow> 0 < b \<Longrightarrow> (a::int) sdiv b = - ((- a) div b)"
  by (simp add: signed_divide_int_def sgn_if)

lemma div_le_self_int: "0 \<le> a \<Longrightarrow> 0 < b \<Longrightarrow> (a::int) div b \<le> a"
  using zdiv_mono2[of a 1 b] by simp

lemma sdiv_pos_range:
  assumes "0 < (b::int)"
  shows "(0 \<le> a \<longrightarrow> 0 \<le> a sdiv b \<and> a sdiv b \<le> a) \<and>
         (a < 0 \<longrightarrow> a \<le> a sdiv b \<and> a sdiv b \<le> 0)"
proof (cases "0 \<le> a")
  case True
  then have "a sdiv b = a div b" using assms by (rule sdiv_nonneg)
  moreover have "0 \<le> a div b" using True assms by (simp add: pos_imp_zdiv_nonneg_iff)
  moreover have "a div b \<le> a" using True assms by (rule div_le_self_int)
  ultimately show ?thesis using True by simp
next
  case False
  then have "a sdiv b = - ((- a) div b)" using assms by (simp add: sdiv_neg)
  moreover have "0 \<le> (- a) div b" using False assms by (simp add: pos_imp_zdiv_nonneg_iff)
  moreover have "(- a) div b \<le> - a" using False assms by (intro div_le_self_int) simp_all
  ultimately show ?thesis using False by simp
qed

text \<open>A division by a positive divisor does not trap, and its quotient is the truncated
  quotient of the two numbers.\<close>

lemma div_int_pos:
  assumes "0 < sint b"
  shows "\<exists>q. div_int a b = Inr q \<and> sint q = sint a sdiv sint b"
proof -
  have nz: "b \<noteq> 0" using assms by auto
  have r: "INT_MIN \<le> sint a sdiv sint b \<and> sint a sdiv sint b \<le> INT_MAX"
    using sdiv_pos_range[OF assms, of "sint a"] sint_range[of a]
    by (cases "0 \<le> sint a") (auto simp: INT_MIN_def INT_MAX_def)
  show ?thesis using assms nz r by (simp add: div_int_def sint_of_int_32)
qed

section \<open>The degenerate inputs and the two-dimensional overload\<close>

text \<open>
  C8. The occupancy-aware \<^verbatim>\<open>GetGpu2DLaunchConfig\<close> returns, for every back end, extents,
  device, runtime, kernel, shared-memory size and block-size limit, what
  \<^verbatim>\<open>GetGpu3DLaunchConfig\<close> returns for the same arguments and \<open>zdim = 1\<close>, a trap or a
  failed check included.
\<close>

theorem GetGpu2DLaunchConfig_occupancy_is_3D:
  "GetGpu2DLaunchConfig_occupancy be xdim ydim d rt func dynamic_shared_memory_size
       block_size_limit =
   GetGpu3DLaunchConfig be xdim ydim 1 d rt func dynamic_shared_memory_size block_size_limit"
  by (simp add: GetGpu2DLaunchConfig_occupancy_def)

text \<open>
  C3. When an axis extent is zero or negative, the heuristic \<^verbatim>\<open>GetGpu2DLaunchConfig\<close> and
  \<^verbatim>\<open>GetGpu3DLaunchConfig\<close> return the configuration whose three members are
  \<^verbatim>\<open>dim3(0, 0, 0)\<close>. No check fails and nothing traps, and the result is the same for
  every back end, device, runtime, kernel, shared-memory size and block-size limit: neither
  the device nor the occupancy query has a part in it.
\<close>

theorem degenerate_extent_all_zero:
  "(sint xdim \<le> 0 \<or> sint ydim \<le> 0 \<longrightarrow>
      GetGpu2DLaunchConfig xdim ydim d =
        Inr \<lparr>virtual_thread_count = dim3 0 0 0, thread_per_block = dim3 0 0 0,
             block_count = dim3 0 0 0\<rparr>) \<and>
   (sint xdim \<le> 0 \<or> sint ydim \<le> 0 \<or> sint zdim \<le> 0 \<longrightarrow>
      GetGpu3DLaunchConfig be xdim ydim zdim d rt func dynamic_shared_memory_size
          block_size_limit =
        Inr \<lparr>virtual_thread_count = dim3 0 0 0, thread_per_block = dim3 0 0 0,
             block_count = dim3 0 0 0\<rparr>)"
  by (simp add: GetGpu2DLaunchConfig_def GetGpu3DLaunchConfig_def le_def config_def)

theorem degenerate_extent_all_zero_witness:
  "(sint (0 :: int32) \<le> 0 \<or> sint (5 :: int32) \<le> 0) \<and>
   GetGpu2DLaunchConfig 0 5 device_80 =
     Inr \<lparr>virtual_thread_count = dim3 0 0 0, thread_per_block = dim3 0 0 0,
          block_count = dim3 0 0 0\<rparr> \<and>
   (sint (0 :: int32) \<le> 0 \<or> sint (5 :: int32) \<le> 0 \<or> sint (- 3 :: int32) \<le> 0) \<and>
   GetGpu3DLaunchConfig GOOGLE_CUDA 0 5 (- 3) device_80 failing_runtime () 0 0 =
     Inr \<lparr>virtual_thread_count = dim3 0 0 0, thread_per_block = dim3 0 0 0,
          block_count = dim3 0 0 0\<rparr>"
  using degenerate_extent_all_zero
    [of 0 5 device_80 "- 3" GOOGLE_CUDA failing_runtime "()" 0 0]
  by simp

section \<open>\<^verbatim>\<open>DivUp\<close> against the ceiling division\<close>

text \<open>A sum between \<open>2 ^ 31\<close> and \<open>2 ^ 32 - 1\<close> wraps to a negative \<^verbatim>\<open>int\<close>.\<close>

lemma sint_of_int_high:
  assumes "INT_MAX < k" "k \<le> 2 * INT_MAX + 1"
  shows "sint (word_of_int k :: int32) = k - 4294967296"
proof -
  have "(word_of_int k :: int32) = word_of_int (k - 4294967296)"
    by (simp add: word_of_int_eq_iff take_bit_eq_mod)
  moreover have "sint (word_of_int (k - 4294967296) :: int32) = k - 4294967296"
    using assms by (intro sint_of_int_32) (simp_all add: INT_MIN_def INT_MAX_def)
  ultimately show ?thesis by (simp only:)
qed

lemma ceil_div_pos: "0 < a \<Longrightarrow> 0 < b \<Longrightarrow> 1 \<le> ceil_div a b"
  unfolding ceil_div_def using zdiv_mono1[of b "a + b - 1" b] by simp

text \<open>When \<open>a + b - 1\<close> fits, \<^verbatim>\<open>DivUp\<close> is the ceiling division.\<close>

lemma DivUp_exact:
  assumes "0 < sint b" "0 \<le> sint a + sint b - 1" "sint a + sint b - 1 \<le> INT_MAX"
  shows "\<exists>q. DivUp a b = Inr q \<and> sint q = ceil_div (sint a) (sint b)"
proof -
  have w: "a + b - 1 = word_of_int (sint a + sint b - 1)" by simp
  have s: "sint (a + b - 1) = sint a + sint b - 1"
    unfolding w using assms by (intro sint_of_int_32) (simp_all add: INT_MIN_def)
  obtain q where q: "div_int (a + b - 1) b = Inr q" "sint q = sint (a + b - 1) sdiv sint b"
    using div_int_pos[OF assms(1)] by blast
  show ?thesis using q s assms by (simp add: DivUp_def ceil_div_def sdiv_nonneg)
qed

text \<open>For a positive divisor \<^verbatim>\<open>DivUp\<close> never traps and never exceeds the ceiling
  division, also when \<open>a + b - 1\<close> wraps: the wrapped sum is negative and so its
  quotient is not positive.\<close>

lemma DivUp_le:
  assumes "0 < sint b"
  shows "\<exists>q. DivUp a b = Inr q \<and> sint q \<le> max 0 (ceil_div (sint a) (sint b))"
proof -
  have w: "a + b - 1 = word_of_int (sint a + sint b - 1)" by simp
  obtain q where q: "div_int (a + b - 1) b = Inr q" "sint q = sint (a + b - 1) sdiv sint b"
    using div_int_pos[OF assms(1)] by blast
  have neg: "sint (a + b - 1) < 0 \<Longrightarrow> sint q \<le> 0"
    using q(2) sdiv_pos_range[OF assms, of "sint (a + b - 1)"] by simp
  have "sint q \<le> max 0 (ceil_div (sint a) (sint b))"
  proof (cases "sint a + sint b - 1 \<le> INT_MAX")
    case True
    have s: "sint (a + b - 1) = sint a + sint b - 1"
      unfolding w using assms True sint_range[of a] by (intro sint_of_int_32) (simp_all add: INT_MIN_def)
    show ?thesis
    proof (cases "0 \<le> sint a + sint b - 1")
      case True
      then show ?thesis using q(2) s assms by (simp add: ceil_div_def sdiv_nonneg)
    next
      case False
      then show ?thesis using neg s by simp
    qed
  next
    case False
    have "sint (a + b - 1) = sint a + sint b - 1 - 4294967296"
      unfolding w using False sint_range[of a] sint_range[of b]
      by (intro sint_of_int_high) (simp_all add: INT_MAX_def)
    then have "sint (a + b - 1) < 0"
      using sint_range[of a] sint_range[of b] by (simp add: INT_MAX_def)
    then show ?thesis using neg by simp
  qed
  then show ?thesis using q(1) by (simp add: DivUp_def)
qed

section \<open>One-dimensional configurations\<close>

text \<open>
  C2. On the CUDA back end, for a positive \<open>work_element_count\<close> and an occupancy query
  that succeeds with a block count and a positive number of threads per block, the
  occupancy-aware \<^verbatim>\<open>GetGpuLaunchConfig\<close> returns a configuration whose \<open>block_count\<close> is
  at most \<open>ceil_div work_element_count threads\<close>, whose \<open>thread_per_block\<close> is the
  number the query returned and whose \<open>virtual_thread_count\<close> is the work count. The bound
  also holds when \<open>work_element_count + threads - 1\<close> wraps around.
\<close>

theorem GetGpuLaunchConfig_occupancy_clamped:
  assumes "OccupancyMaxPotentialBlockSize rt func dynamic_shared_memory_size block_size_limit =
             (cudaSuccess, blocks, threads)"
    and "0 < sint work_element_count" and "1 \<le> sint threads"
  shows "\<exists>cfg. GetGpuLaunchConfig_occupancy GOOGLE_CUDA work_element_count d rt func
                  dynamic_shared_memory_size block_size_limit = Inr cfg \<and>
               sint (GpuLaunchConfig.block_count cfg) \<le> ceil_div (sint work_element_count) (sint threads) \<and>
               GpuLaunchConfig.thread_per_block cfg = threads \<and>
               GpuLaunchConfig.virtual_thread_count cfg = work_element_count"
proof -
  obtain q where q: "DivUp work_element_count threads = Inr q"
      "sint q \<le> max 0 (ceil_div (sint work_element_count) (sint threads))"
    using DivUp_le[of threads work_element_count] assms(3) by auto
  have "1 \<le> ceil_div (sint work_element_count) (sint threads)"
    using assms by (intro ceil_div_pos) simp_all
  then have "sint (std_min blocks q) \<le> ceil_div (sint work_element_count) (sint threads)"
    using q(2) by (simp add: sint_std_min)
  then show ?thesis
    using assms(1,2) q(1) by (simp add: GetGpuLaunchConfig_occupancy_def lt_def)
qed


theorem GetGpuLaunchConfig_occupancy_clamped_witness:
  "OccupancyMaxPotentialBlockSize example_runtime () 0 0 = (cudaSuccess, 13, 1024) \<and>
   0 < sint (10240 :: int32) \<and> 1 \<le> sint (1024 :: int32) \<and>
   (\<exists>cfg. GetGpuLaunchConfig_occupancy GOOGLE_CUDA 10240 device_80 example_runtime () 0 0 =
            Inr cfg \<and>
          sint (GpuLaunchConfig.block_count cfg) \<le> ceil_div (sint (10240 :: int32)) (sint (1024 :: int32)) \<and>
          GpuLaunchConfig.thread_per_block cfg = 1024 \<and>
          GpuLaunchConfig.virtual_thread_count cfg = 10240)"
  using GetGpuLaunchConfig_occupancy_clamped
    [of example_runtime "()" 0 0 13 1024 10240 device_80]
  by (simp add: example_runtime_def)

lemma le_ceil_div_mult: 
  assumes "0 < b" shows "a \<le> ceil_div a b * b"
proof -
  have "ceil_div a b * b = (a + b - 1) - (a + b - 1) mod b"
    by (simp add: ceil_div_def minus_mod_eq_div_mult)
  moreover have "(a + b - 1) mod b \<le> b - 1"
    using assms pos_mod_bound[of b "a + b - 1"] by simp
  ultimately show ?thesis by simp
qed

lemma ceil_div_mono: "0 < b \<Longrightarrow> a \<le> a' \<Longrightarrow> ceil_div a b \<le> ceil_div a' b"
  unfolding ceil_div_def by (intro zdiv_mono1) simp_all

lemma ceil_div_antimono: 
  assumes "0 < a" "0 < b" "b \<le> b'" shows "ceil_div a b' \<le> ceil_div a b"
proof -
  have e: "\<And>c::int. a + c - 1 = (a - 1) + c" by simp
  have 1: "ceil_div a b = (a - 1) div b + 1" using assms
    unfolding ceil_div_def e by (simp add: div_add_self2)
  have 2: "ceil_div a b' = (a - 1) div b' + 1" using assms
    unfolding ceil_div_def e by (simp add: div_add_self2)
  have "(a - 1) div b' \<le> (a - 1) div b" using assms by (intro zdiv_mono2) simp_all
  then show ?thesis using 1 2 by simp
qed

text \<open>What the heuristic one-dimensional function returns when nothing overflows.\<close>

lemma GetGpuLaunchConfig_value:
  assumes "0 < sint n" 
    and "1 \<le> sint (maxThreadsPerBlock d)"
    and "INT_MIN \<le> sint (getNumMultiProcessors d) * sint (maxThreadsPerMultiProcessor d)"
    and "sint (getNumMultiProcessors d) * sint (maxThreadsPerMultiProcessor d) \<le> INT_MAX"
    and "0 \<le> sint (getNumMultiProcessors d) * sint (maxThreadsPerMultiProcessor d)"
    and "min (sint n) (sint (getNumMultiProcessors d) * sint (maxThreadsPerMultiProcessor d))
           + min 1024 (sint (maxThreadsPerBlock d)) - 1 \<le> INT_MAX"
  shows "\<exists>cfg. GetGpuLaunchConfig n d = Inr cfg \<and>
           GpuLaunchConfig.virtual_thread_count cfg = n \<and>
           sint (GpuLaunchConfig.thread_per_block cfg) = min 1024 (sint (maxThreadsPerBlock d)) \<and>
           sint (GpuLaunchConfig.block_count cfg) =
             min (ceil_div (min (sint n) (sint (getNumMultiProcessors d) * sint (maxThreadsPerMultiProcessor d)))
                    (min 1024 (sint (maxThreadsPerBlock d))))
                 (sint (getNumMultiProcessors d))"
proof -
  let ?mp = "getNumMultiProcessors d" and ?tpm = "maxThreadsPerMultiProcessor d"
  let ?ptc = "std_min (?mp * ?tpm) n" and ?tpb = "std_min 1024 (maxThreadsPerBlock d)"
  have p: "sint (?mp * ?tpm) = sint ?mp * sint ?tpm"
    using assms(3,4) by (rule sint_mult_32)
  have ptc: "sint ?ptc = min (sint n) (sint ?mp * sint ?tpm)"
    by (simp add: sint_std_min p min.commute)
  have tpb: "sint ?tpb = min 1024 (sint (maxThreadsPerBlock d))"
    by (simp add: sint_std_min)
  have "\<exists>q. DivUp ?ptc ?tpb = Inr q \<and> sint q = ceil_div (sint ?ptc) (sint ?tpb)"
    using assms by (intro DivUp_exact) (simp_all add: ptc tpb)
  then obtain q where q: "DivUp ?ptc ?tpb = Inr q" "sint q = ceil_div (sint ?ptc) (sint ?tpb)"
    by blast
  have q2: "sint q = ceil_div (min (sint n) (sint ?mp * sint ?tpm)) (min 1024 (sint (maxThreadsPerBlock d)))"
    using q(2) by (simp only: ptc tpb)
  show ?thesis
    using assms(1) q(1) by (simp add: GetGpuLaunchConfig_def lt_def Let_def sint_std_min[of q] q2 tpb)
qed

text \<open>
  C5. For a positive \<open>work_element_count\<close> and a device whose multiprocessor count, threads
  per multiprocessor and threads per block are at least 1, provided the product of the
  first two fits in an \<^verbatim>\<open>int\<close> and \<open>physical_thread_count + thread_per_block - 1\<close> does
  too, the heuristic \<^verbatim>\<open>GetGpuLaunchConfig\<close> returns \<open>virtual_thread_count = n\<close>,
  \<open>thread_per_block = min 1024 max_threads_per_block\<close> and
  \<open>block_count = min (ceil_div physical_thread_count thread_per_block) multiprocessor_count\<close>
  with \<open>physical_thread_count = min n (multiprocessor_count * max_threads_per_multiprocessor)\<close>,
  and \<open>1 \<le> block_count \<le> multiprocessor_count\<close>.
\<close>

theorem GetGpuLaunchConfig_heuristic:
  assumes "0 < sint n"
    and "1 \<le> sint (getNumMultiProcessors d)"
    and "1 \<le> sint (maxThreadsPerMultiProcessor d)"
    and "1 \<le> sint (maxThreadsPerBlock d)"
    and "sint (getNumMultiProcessors d) * sint (maxThreadsPerMultiProcessor d) \<le> INT_MAX"
    and "min (sint n) (sint (getNumMultiProcessors d) * sint (maxThreadsPerMultiProcessor d))
           + min 1024 (sint (maxThreadsPerBlock d)) - 1 \<le> INT_MAX"
  shows "\<exists>cfg. GetGpuLaunchConfig n d = Inr cfg \<and>
           GpuLaunchConfig.virtual_thread_count cfg = n \<and>
           sint (GpuLaunchConfig.thread_per_block cfg) = min 1024 (sint (maxThreadsPerBlock d)) \<and>
           sint (GpuLaunchConfig.block_count cfg) =
             min (ceil_div
                    (min (sint n)
                       (sint (getNumMultiProcessors d) * sint (maxThreadsPerMultiProcessor d)))
                    (sint (GpuLaunchConfig.thread_per_block cfg)))
                 (sint (getNumMultiProcessors d)) \<and>
           1 \<le> sint (GpuLaunchConfig.block_count cfg) \<and>
           sint (GpuLaunchConfig.block_count cfg) \<le> sint (getNumMultiProcessors d)"
proof -
  let ?p = "sint (getNumMultiProcessors d) * sint (maxThreadsPerMultiProcessor d)"
  have pos: "1 \<le> ?p"
    using assms(2,3) by (metis mult_mono mult_1 zero_le_one order_trans)
  obtain cfg where cfg: "GetGpuLaunchConfig n d = Inr cfg"
      "GpuLaunchConfig.virtual_thread_count cfg = n"
      "sint (GpuLaunchConfig.thread_per_block cfg) = min 1024 (sint (maxThreadsPerBlock d))"
      "sint (GpuLaunchConfig.block_count cfg) =
         min (ceil_div (min (sint n) ?p) (min 1024 (sint (maxThreadsPerBlock d))))
           (sint (getNumMultiProcessors d))"
    using GetGpuLaunchConfig_value[of n d] assms pos by (auto simp: INT_MIN_def)
  have "1 \<le> ceil_div (min (sint n) ?p) (min 1024 (sint (maxThreadsPerBlock d)))"
    using assms(1,4) pos by (intro ceil_div_pos) simp_all
  then have "1 \<le> sint (GpuLaunchConfig.block_count cfg)"
    using cfg(4) assms(2) by simp
  moreover have "sint (GpuLaunchConfig.block_count cfg) \<le> sint (getNumMultiProcessors d)"
    using cfg(4) by simp
  ultimately show ?thesis using cfg by simp
qed

theorem GetGpuLaunchConfig_heuristic_witness:
  "0 < sint (1000000 :: int32) \<and>
   1 \<le> sint (getNumMultiProcessors device_80) \<and>
   1 \<le> sint (maxThreadsPerMultiProcessor device_80) \<and>
   1 \<le> sint (maxThreadsPerBlock device_80) \<and>
   sint (getNumMultiProcessors device_80) * sint (maxThreadsPerMultiProcessor device_80)
     \<le> INT_MAX \<and>
   min (sint (1000000 :: int32))
       (sint (getNumMultiProcessors device_80) * sint (maxThreadsPerMultiProcessor device_80))
     + min 1024 (sint (maxThreadsPerBlock device_80)) - 1 \<le> INT_MAX \<and>
   (\<exists>cfg. GetGpuLaunchConfig 1000000 device_80 = Inr cfg \<and>
      GpuLaunchConfig.virtual_thread_count cfg = 1000000 \<and>
      sint (GpuLaunchConfig.thread_per_block cfg) = 1024 \<and>
      sint (GpuLaunchConfig.block_count cfg) = 80)"
  using GetGpuLaunchConfig_heuristic [of 1000000 device_80]
  by (auto simp add: device_80_def INT_MAX_def ceil_div_def)

theorem GetGpuLaunchConfig_heuristic_counterexample:
  "0 < sint (1 :: int32) \<and>
   1 \<le> sint (getNumMultiProcessors device_65536) \<and>
   1 \<le> sint (maxThreadsPerMultiProcessor device_65536) \<and>
   1 \<le> sint (maxThreadsPerBlock device_65536) \<and>
   GetGpuLaunchConfig 1 device_65536 =
     Inr \<lparr>GpuLaunchConfig.virtual_thread_count = 1, thread_per_block = 1024, block_count = 0\<rparr> \<and>
   min (ceil_div (min 1 (65536 * 65536)) (min 1024 1024)) 65536 = (1 :: int) \<and>
   \<not> 1 \<le> sint (0 :: int32)"
  by (simp add: GetGpuLaunchConfig_def device_65536_def lt_def std_min_def DivUp_def
      div_int_def INT_MIN_def signed_divide_int_def ceil_div_def)


lemma capped_cover: "p \<le> c * t \<Longrightarrow> min p (m * t) \<le> min c m * (t::int)"
  by (cases "c \<le> m") (simp_all add: min_def)

text \<open>
  C7. Under the hypotheses of C5, the configuration of the heuristic
  \<^verbatim>\<open>GetGpuLaunchConfig\<close> satisfies
  \<open>block_count * thread_per_block \<ge> min physical_thread_count (multiprocessor_count *
  thread_per_block)\<close>, where \<open>physical_thread_count = min n (multiprocessor_count *
  max_threads_per_multiprocessor)\<close>; it covers \<open>physical_thread_count\<close> whenever
  \<open>ceil_div physical_thread_count thread_per_block \<le> multiprocessor_count\<close>, that is,
  whenever the cap by the multiprocessor count does not bind.
\<close>

theorem GetGpuLaunchConfig_heuristic_coverage:
  assumes "0 < sint n"
    and "1 \<le> sint (getNumMultiProcessors d)"
    and "1 \<le> sint (maxThreadsPerMultiProcessor d)"
    and "1 \<le> sint (maxThreadsPerBlock d)"
    and "sint (getNumMultiProcessors d) * sint (maxThreadsPerMultiProcessor d) \<le> INT_MAX"
    and "min (sint n) (sint (getNumMultiProcessors d) * sint (maxThreadsPerMultiProcessor d))
           + min 1024 (sint (maxThreadsPerBlock d)) - 1 \<le> INT_MAX"
  shows "\<exists>cfg. GetGpuLaunchConfig n d = Inr cfg \<and>
           min (min (sint n)
                  (sint (getNumMultiProcessors d) * sint (maxThreadsPerMultiProcessor d)))
               (sint (getNumMultiProcessors d) * sint (GpuLaunchConfig.thread_per_block cfg))
             \<le> sint (GpuLaunchConfig.block_count cfg) * sint (GpuLaunchConfig.thread_per_block cfg) \<and>
           (ceil_div
              (min (sint n)
                 (sint (getNumMultiProcessors d) * sint (maxThreadsPerMultiProcessor d)))
              (sint (GpuLaunchConfig.thread_per_block cfg))
              \<le> sint (getNumMultiProcessors d) \<longrightarrow>
            min (sint n) (sint (getNumMultiProcessors d) * sint (maxThreadsPerMultiProcessor d))
              \<le> sint (GpuLaunchConfig.block_count cfg) * sint (GpuLaunchConfig.thread_per_block cfg))"
proof -
  let ?p = "sint (getNumMultiProcessors d) * sint (maxThreadsPerMultiProcessor d)"
  let ?t = "min 1024 (sint (maxThreadsPerBlock d))"
  let ?ptc = "min (sint n) ?p"
  have pos: "1 \<le> ?p"
    using assms(2,3) by (metis mult_mono mult_1 zero_le_one order_trans)
  obtain cfg where cfg: "GetGpuLaunchConfig n d = Inr cfg"
      "sint (GpuLaunchConfig.thread_per_block cfg) = ?t"
      "sint (GpuLaunchConfig.block_count cfg) =
         min (ceil_div ?ptc ?t) (sint (getNumMultiProcessors d))"
    using GetGpuLaunchConfig_value[of n d] assms pos by (auto simp: INT_MIN_def)
  have t: "0 < ?t" using assms(4) by simp
  have cover: "?ptc \<le> ceil_div ?ptc ?t * ?t"
    using t by (rule le_ceil_div_mult)
  have 1: "min ?ptc (sint (getNumMultiProcessors d) * ?t)
             \<le> min (ceil_div ?ptc ?t) (sint (getNumMultiProcessors d)) * ?t"
    using cover by (rule capped_cover)
  have 2: "ceil_div ?ptc ?t \<le> sint (getNumMultiProcessors d) \<longrightarrow>
             ?ptc \<le> min (ceil_div ?ptc ?t) (sint (getNumMultiProcessors d)) * ?t"
  proof
    assume "ceil_div ?ptc ?t \<le> sint (getNumMultiProcessors d)"
    then show "?ptc \<le> min (ceil_div ?ptc ?t) (sint (getNumMultiProcessors d)) * ?t"
      using cover by (simp only: min.absorb1)
  qed
  show ?thesis
    apply (rule exI[of _ cfg])
    unfolding cfg(2,3)
    using cfg(1) 1 2 by blast
qed

theorem GetGpuLaunchConfig_heuristic_coverage_witness:
  "0 < sint (1000000 :: int32) \<and>
   1 \<le> sint (getNumMultiProcessors device_80) \<and>
   1 \<le> sint (maxThreadsPerMultiProcessor device_80) \<and>
   1 \<le> sint (maxThreadsPerBlock device_80) \<and>
   sint (getNumMultiProcessors device_80) * sint (maxThreadsPerMultiProcessor device_80)
     \<le> INT_MAX \<and>
   min (sint (1000000 :: int32))
       (sint (getNumMultiProcessors device_80) * sint (maxThreadsPerMultiProcessor device_80))
     + min 1024 (sint (maxThreadsPerBlock device_80)) - 1 \<le> INT_MAX \<and>
   (\<exists>cfg. GetGpuLaunchConfig 1000000 device_80 = Inr cfg \<and>
      min (163840 :: int) (80 * sint (GpuLaunchConfig.thread_per_block cfg))
        \<le> sint (GpuLaunchConfig.block_count cfg) * sint (GpuLaunchConfig.thread_per_block cfg))"
  using GetGpuLaunchConfig_heuristic_coverage [of 1000000 device_80]
  by (auto simp add: device_80_def INT_MAX_def)

theorem GetGpuLaunchConfig_heuristic_coverage_counterexample:
  "0 < sint (1000000 :: int32) \<and>
   1 \<le> sint (getNumMultiProcessors device_80) \<and>
   1 \<le> sint (maxThreadsPerMultiProcessor device_80) \<and>
   1 \<le> sint (maxThreadsPerBlock device_80) \<and>
   GetGpuLaunchConfig 1000000 device_80 =
     Inr \<lparr>GpuLaunchConfig.virtual_thread_count = 1000000, thread_per_block = 1024,
          block_count = 80\<rparr> \<and>
   (80 :: int) * 1024 < min 1000000 (80 * 2048)"
  by (simp add: GetGpuLaunchConfig_def device_80_def lt_def std_min_def DivUp_def
      div_int_def INT_MIN_def signed_divide_int_def)

text \<open>On the CUDA back end \<^verbatim>\<open>GetGpuLaunchConfigFixedBlockSize\<close> clamps the block count by
  \<^verbatim>\<open>DivUp(work_element_count, fixed_block_size)\<close>: for a positive work count, a positive
  fixed block size and a query that succeeds, \<open>thread_per_block = fixed_block_size\<close> and
  \<open>block_count \<le> ceil_div work_element_count fixed_block_size\<close>.\<close>

lemma GetGpuLaunchConfigFixedBlockSize_cuda_clamped:
  assumes "0 < sint n" and "0 < sint fixed_block_size"
    and "fst (OccupancyMaxActiveBlocksPerMultiprocessor rt func fixed_block_size
                dynamic_shared_memory_size) = cudaSuccess"
  shows "\<exists>cfg. GetGpuLaunchConfigFixedBlockSize GOOGLE_CUDA n d rt func
                  dynamic_shared_memory_size fixed_block_size = Inr cfg \<and>
               GpuLaunchConfig.virtual_thread_count cfg = n \<and>
               GpuLaunchConfig.thread_per_block cfg = fixed_block_size \<and>
               sint (GpuLaunchConfig.block_count cfg) \<le> ceil_div (sint n) (sint fixed_block_size)"
proof -
  obtain err active_blocks where occ:
      "OccupancyMaxActiveBlocksPerMultiprocessor rt func fixed_block_size
         dynamic_shared_memory_size = (err, active_blocks)"
    by (cases "OccupancyMaxActiveBlocksPerMultiprocessor rt func fixed_block_size
         dynamic_shared_memory_size")
  have err: "err = cudaSuccess" using assms(3) occ by simp
  obtain q where q: "DivUp n fixed_block_size = Inr q"
      "sint q \<le> max 0 (ceil_div (sint n) (sint fixed_block_size))"
    using DivUp_le[OF assms(2), of n] by blast
  have "1 \<le> ceil_div (sint n) (sint fixed_block_size)"
    using assms(1,2) by (rule ceil_div_pos)
  then have "sint (std_min (active_blocks * getNumMultiProcessors d) q)
               \<le> ceil_div (sint n) (sint fixed_block_size)"
    using q(2) by (simp add: sint_std_min)
  then show ?thesis
    using assms(1) occ err q(1)
    by (simp add: GetGpuLaunchConfigFixedBlockSize_def lt_def)
qed

text \<open>
  C4. On the ROCm back end \<^verbatim>\<open>GetGpuLaunchConfigFixedBlockSize\<close> does not keep
  \<open>block_count \<le> ceil_div work_element_count fixed_block_size\<close>: its branch takes the
  block count of the heuristic for \<open>min 1024 max_threads_per_block\<close> threads and has no
  clamp by \<^verbatim>\<open>DivUp(work_element_count, fixed_block_size)\<close>, which the CUDA branch of the
  same function has and which the occupancy-aware \<^verbatim>\<open>GetGpuLaunchConfig\<close> applies on both
  back ends. For the work count 3000 and the fixed block size 2048 it returns
  \<open>thread_per_block = 2048\<close> and \<open>block_count = 3\<close>, and \<open>ceil_div 3000 2048 = 2\<close>; this
  is so on a device of 1024 threads per block and on one of 2048.
\<close>

theorem GetGpuLaunchConfigFixedBlockSize_rocm_unclamped:
  "0 < sint (3000 :: int32) \<and> 0 < sint (2048 :: int32) \<and>
   1 \<le> sint (getNumMultiProcessors device_80) \<and>
   1 \<le> sint (maxThreadsPerBlock device_80) \<and>
   GetGpuLaunchConfigFixedBlockSize TENSORFLOW_USE_ROCM 3000 device_80 example_runtime () 0
       2048 =
     Inr \<lparr>GpuLaunchConfig.virtual_thread_count = 3000, thread_per_block = 2048,
          block_count = 3\<rparr> \<and>
   1 \<le> sint (getNumMultiProcessors device_80_2048) \<and>
   sint (maxThreadsPerBlock device_80_2048) = 2048 \<and>
   GetGpuLaunchConfigFixedBlockSize TENSORFLOW_USE_ROCM 3000 device_80_2048 example_runtime ()
       0 2048 =
     Inr \<lparr>GpuLaunchConfig.virtual_thread_count = 3000, thread_per_block = 2048,
          block_count = 3\<rparr> \<and>
   ceil_div 3000 2048 = 2 \<and>
   \<not> sint (3 :: int32) \<le> ceil_div 3000 2048"
  by (simp add: GetGpuLaunchConfigFixedBlockSize_def device_80_def device_80_2048_def lt_def
      std_min_def DivUp_def div_int_def INT_MIN_def signed_divide_int_def ceil_div_def)

section \<open>The two-dimensional heuristic\<close>

lemma max_sdiv_1: "0 < b \<Longrightarrow> max ((a::int) sdiv b) 1 = max (a div b) 1"
proof (cases "0 \<le> a")
  case True
  assume "0 < b"
  then show ?thesis using True by (simp add: sdiv_nonneg)
next
  case False
  assume b: "0 < b"
  have "a sdiv b \<le> 0" using sdiv_pos_range[OF b, of a] False by simp
  moreover have "a div b < 0" using False b by (intro div_neg_pos_less0) simp_all
  ultimately show ?thesis by simp
qed

lemma div_int_nonneg:
  assumes "0 < sint b" "0 \<le> sint a"
  shows "\<exists>q. div_int a b = Inr q \<and> sint q = sint a div sint b"
  using div_int_pos[OF assms(1), of a] assms by (simp add: sdiv_nonneg)

text \<open>What the heuristic two-dimensional function computes, step by step, when
  \<open>xdim + block_cols - 1\<close> fits in an \<^verbatim>\<open>int\<close>. The physical thread count is the product as
  the machine computes it.\<close>

lemma GetGpu2DLaunchConfig_value:
  assumes x: "0 < sint xdim" and y: "0 < sint ydim"
    and xhi: "sint xdim + min (sint xdim) 256 - 1 \<le> INT_MAX"
  shows "\<exists>block_cols block_rows grid_x grid_y.
           GetGpu2DLaunchConfig xdim ydim d =
             Inr \<lparr>virtual_thread_count = dim3 xdim ydim 1,
                  thread_per_block = dim3 block_cols block_rows 1,
                  block_count = dim3 grid_x grid_y 1\<rparr> \<and>
           sint block_cols = min (sint xdim) 256 \<and>
           sint block_rows = max (256 div sint block_cols) 1 \<and>
           sint grid_x =
             min (ceil_div (sint xdim) (sint block_cols))
               (max (sint (getNumMultiProcessors d * maxThreadsPerMultiProcessor d)
                       div 256) 1) \<and>
           sint grid_y =
             min (max (sint (getNumMultiProcessors d * maxThreadsPerMultiProcessor d)
                         div 256) 1 div sint grid_x)
               (max (sint ydim div sint block_rows) 1)"
proof -
  let ?p = "sint (getNumMultiProcessors d * maxThreadsPerMultiProcessor d)"
  define block_cols where "block_cols = std_min xdim kThreadsPerBlock"
  have bc: "sint block_cols = min (sint xdim) 256"
    by (simp add: block_cols_def sint_std_min kThreadsPerBlock_def)
  have bcpos: "0 < sint block_cols" using bc x by simp
  obtain q1 where q1: "div_int kThreadsPerBlock block_cols = Inr q1"
      "sint q1 = 256 div sint block_cols"
    using div_int_nonneg[OF bcpos, of kThreadsPerBlock] by (auto simp: kThreadsPerBlock_def)
  define block_rows where "block_rows = std_max q1 1"
  have br: "sint block_rows = max (256 div sint block_cols) 1"
    by (simp add: block_rows_def sint_std_max q1(2))
  have brpos: "0 < sint block_rows" using br by simp
  obtain q2 where q2:
      "div_int (getNumMultiProcessors d * maxThreadsPerMultiProcessor d) kThreadsPerBlock = Inr q2"
      "sint q2 = ?p sdiv 256"
    using div_int_pos[of kThreadsPerBlock "getNumMultiProcessors d * maxThreadsPerMultiProcessor d"]
    by (auto simp: kThreadsPerBlock_def)
  define max_blocks where "max_blocks = std_max q2 1"
  have mb: "sint max_blocks = max (?p div 256) 1"
    by (simp add: max_blocks_def sint_std_max q2(2) max_sdiv_1)
  have mbpos: "0 < sint max_blocks" using mb by simp
  obtain q3 where q3: "DivUp xdim block_cols = Inr q3"
      "sint q3 = ceil_div (sint xdim) (sint block_cols)"
  proof -
    have "0 \<le> sint xdim + sint block_cols - 1" using x bcpos by simp
    moreover have "sint xdim + sint block_cols - 1 \<le> INT_MAX" using xhi bc by simp
    ultimately show ?thesis using DivUp_exact[OF bcpos, of xdim] that by blast
  qed
  define grid_x where "grid_x = std_min q3 max_blocks"
  have gx: "sint grid_x = min (ceil_div (sint xdim) (sint block_cols)) (max (?p div 256) 1)"
    by (simp add: grid_x_def sint_std_min q3(2) mb)
  have "1 \<le> ceil_div (sint xdim) (sint block_cols)" using x bcpos by (rule ceil_div_pos)
  then have gxpos: "0 < sint grid_x" using gx by simp
  obtain q4 where q4: "div_int max_blocks grid_x = Inr q4"
      "sint q4 = sint max_blocks div sint grid_x"
    using div_int_nonneg[OF gxpos, of max_blocks] mbpos by auto
  obtain q5 where q5: "div_int ydim block_rows = Inr q5"
      "sint q5 = sint ydim div sint block_rows"
    using div_int_nonneg[OF brpos, of ydim] y by auto
  define grid_y where "grid_y = std_min q4 (std_max q5 1)"
  have gy: "sint grid_y = min (max (?p div 256) 1 div sint grid_x)
                            (max (sint ydim div sint block_rows) 1)"
    by (simp add: grid_y_def sint_std_min sint_std_max q4(2) q5(2) mb)
  have "GetGpu2DLaunchConfig xdim ydim d =
          Inr \<lparr>virtual_thread_count = dim3 xdim ydim 1,
               thread_per_block = dim3 block_cols block_rows 1,
               block_count = dim3 grid_x grid_y 1\<rparr>"
    using x y q1(1) q2(1) q3(1) q4(1) q5(1)
    unfolding GetGpu2DLaunchConfig_def Let_def le_def block_cols_def[symmetric]
    by (simp add: block_rows_def[symmetric] max_blocks_def[symmetric] grid_x_def[symmetric] grid_y_def[symmetric])
  then show ?thesis using bc br gx gy by blast
qed

text \<open>
  C6. For positive \<open>xdim\<close> and \<open>ydim\<close> and a device whose physical thread count
  \<open>multiprocessor_count * max_threads_per_multiprocessor\<close> fits in an \<^verbatim>\<open>int\<close>, provided
  \<open>xdim + block_cols - 1\<close> fits too, the heuristic \<^verbatim>\<open>GetGpu2DLaunchConfig\<close> returns
  \<open>thread_per_block = (block_cols, block_rows, 1)\<close> and \<open>block_count = (grid_x, grid_y, 1)\<close>
  as the specification computes them: \<open>block_cols = min xdim 256\<close>,
  \<open>block_rows = max (256 div block_cols) 1\<close>, \<open>max_blocks = max (physical_thread_count div
  256) 1\<close>, \<open>grid_x = min (ceil_div xdim block_cols) max_blocks\<close> and
  \<open>grid_y = min (max_blocks div grid_x) (max (ydim div block_rows) 1)\<close>. For
  \<open>xdim = ydim = 10240\<close> and the physical thread count 20480 this is (256, 1, 1) and
  (40, 2, 1).
\<close>

theorem GetGpu2DLaunchConfig_heuristic:
  assumes "0 < sint xdim" and "0 < sint ydim"
    and "INT_MIN \<le> sint (getNumMultiProcessors d) * sint (maxThreadsPerMultiProcessor d)"
    and "sint (getNumMultiProcessors d) * sint (maxThreadsPerMultiProcessor d) \<le> INT_MAX"
    and "sint xdim + min (sint xdim) 256 - 1 \<le> INT_MAX"
  shows "\<exists>cfg. GetGpu2DLaunchConfig xdim ydim d = Inr cfg \<and>
           virtual_thread_count cfg = dim3 xdim ydim 1 \<and>
           dim3_value (thread_per_block cfg) = spec_block2D (sint xdim) \<and>
           dim3_value (block_count cfg) =
             spec_grid2D (sint xdim) (sint ydim)
               (sint (getNumMultiProcessors d) * sint (maxThreadsPerMultiProcessor d))"
proof -
  let ?p = "sint (getNumMultiProcessors d) * sint (maxThreadsPerMultiProcessor d)"
  have p: "sint (getNumMultiProcessors d * maxThreadsPerMultiProcessor d) = ?p"
    using assms(3,4) by (rule sint_mult_32)
  obtain block_cols block_rows grid_x grid_y where
    r: "GetGpu2DLaunchConfig xdim ydim d =
          Inr \<lparr>virtual_thread_count = dim3 xdim ydim 1,
               thread_per_block = dim3 block_cols block_rows 1,
               block_count = dim3 grid_x grid_y 1\<rparr>"
    and bc: "sint block_cols = min (sint xdim) 256"
    and br: "sint block_rows = max (256 div sint block_cols) 1"
    and gx: "sint grid_x = min (ceil_div (sint xdim) (sint block_cols)) (max (?p div 256) 1)"
    and gy: "sint grid_y = min (max (?p div 256) 1 div sint grid_x)
                             (max (sint ydim div sint block_rows) 1)"
    using GetGpu2DLaunchConfig_value[OF assms(1,2,5), of d] unfolding p by blast
  have bcpos: "0 < sint block_cols" using bc assms(1) by simp
  have brpos: "0 < sint block_rows" using br by simp
  have "1 \<le> ceil_div (sint xdim) (sint block_cols)" using assms(1) bcpos by (rule ceil_div_pos)
  then have gxpos: "0 < sint grid_x" using gx by simp
  have "0 \<le> max (?p div 256) 1 div sint grid_x"
    using gxpos by (simp add: pos_imp_zdiv_nonneg_iff)
  then have gypos: "0 \<le> sint grid_y" using gy by simp
  have u: "uint block_cols = sint block_cols" "uint block_rows = sint block_rows"
      "uint grid_x = sint grid_x" "uint grid_y = sint grid_y"
    using bcpos brpos gxpos gypos by (simp_all add: uint_sint_32)
  have t: "dim3_value (dim3 block_cols block_rows 1) = spec_block2D (sint xdim)"
    by (simp add: dim3_value_def spec_block2D_def Let_def u bc br)
  have g: "dim3_value (dim3 grid_x grid_y 1) = spec_grid2D (sint xdim) (sint ydim) ?p"
    by (simp add: dim3_value_def spec_grid2D_def spec_block2D_def Let_def u gy br gx bc)
  show ?thesis using r t g by simp
qed

theorem GetGpu2DLaunchConfig_heuristic_witness:
  "0 < sint (10240 :: int32) \<and>
   INT_MIN \<le> sint (getNumMultiProcessors device_10) * sint (maxThreadsPerMultiProcessor device_10) \<and>
   sint (getNumMultiProcessors device_10) * sint (maxThreadsPerMultiProcessor device_10)
     \<le> INT_MAX \<and>
   sint (10240 :: int32) + min (sint (10240 :: int32)) 256 - 1 \<le> INT_MAX \<and>
   sint (getNumMultiProcessors device_10) * sint (maxThreadsPerMultiProcessor device_10) = 20480 \<and>
   (\<exists>cfg. GetGpu2DLaunchConfig 10240 10240 device_10 = Inr cfg \<and>
      virtual_thread_count cfg = dim3 10240 10240 1 \<and>
      dim3_value (thread_per_block cfg) = (256, 1, 1) \<and>
      dim3_value (block_count cfg) = (40, 2, 1))"
  using GetGpu2DLaunchConfig_heuristic [of 10240 10240 device_10]
  by (simp add: device_10_def INT_MAX_def INT_MIN_def spec_block2D_def spec_grid2D_def
      ceil_div_def)

theorem GetGpu2DLaunchConfig_heuristic_counterexample:
  "0 < sint (2147483647 :: int32) \<and> 0 < sint (1 :: int32) \<and>
   GetGpu2DLaunchConfig 2147483647 1 device_80 =
     Inr \<lparr>virtual_thread_count = dim3 2147483647 1 1,
          thread_per_block = dim3 256 1 1,
          block_count = dim3 4286578689 0 1\<rparr> \<and>
   sint (getNumMultiProcessors device_80) * sint (maxThreadsPerMultiProcessor device_80)
     = 163840 \<and>
   spec_grid2D 2147483647 1 163840 = (640, 1, 1) \<and>
   dim3_value (dim3 4286578689 0 1) \<noteq> (640, 1, 1)"
  by (simp add: GetGpu2DLaunchConfig_def device_80_def le_def lt_def std_min_def std_max_def
      DivUp_def div_int_def INT_MIN_def signed_divide_int_def kThreadsPerBlock_def
      spec_block2D_def spec_grid2D_def ceil_div_def dim3_value_def)

section \<open>The three-dimensional distribution\<close>

lemma mult_div_le_int: "0 < b \<Longrightarrow> b * ((a::int) div b) \<le> a"
  using mult_div_mod_eq[of b a] pos_mod_sign[of b a] by linarith

text \<open>One step of the greedy distribution keeps the product within the budget.\<close>

lemma greedy_step:
  assumes "1 \<le> a" "a \<le> t" "1 \<le> b" "b \<le> max (t div a) 1"
  shows "a * b \<le> (t::int)"
proof (cases "1 \<le> t div a")
  case True
  then have "b \<le> t div a" using assms(4) by simp
  then have "a * b \<le> a * (t div a)" using assms(1) by (intro mult_left_mono) simp_all
  also have "\<dots> \<le> t" using assms(1) by (intro mult_div_le_int) simp
  finally show ?thesis .
next
  case False
  then have "b = 1" using assms(3,4) by simp
  then show ?thesis using assms(2) by simp
qed

lemma distribute_threads_value:
  assumes x: "0 < sint xdim" and y: "0 < sint ydim" and z: "0 < sint zdim"
    and t: "1 \<le> sint threads"
    and xl: "1 \<le> sint xthreadlimit" and yl: "1 \<le> sint ythreadlimit"
    and zl: "1 \<le> sint zthreadlimit"
  shows "\<exists>threadsx threadsy threadsz.
           distribute_threads xdim ydim zdim threads xthreadlimit ythreadlimit zthreadlimit =
             Inr (threadsx, threadsy, threadsz) \<and>
           (sint threadsx, sint threadsy, sint threadsz) =
             spec_threads3D (sint xdim) (sint ydim) (sint zdim) (sint threads)
               (sint xthreadlimit) (sint ythreadlimit) (sint zthreadlimit) \<and>
           1 \<le> sint threadsx \<and> sint threadsx \<le> sint xdim \<and>
           1 \<le> sint threadsy \<and> sint threadsy \<le> sint ydim \<and>
           1 \<le> sint threadsz \<and> sint threadsz \<le> sint zdim \<and>
           sint (threadsx * threadsy) = sint threadsx * sint threadsy \<and>
           sint threadsx * sint threadsy \<le> sint threads \<and>
           sint threadsx * sint threadsy * sint threadsz \<le> sint threads"
proof -
  define threadsx where "threadsx = std_min3 xdim threads xthreadlimit"
  have tx: "sint threadsx = min (sint xdim) (min (sint threads) (sint xthreadlimit))"
    by (simp add: threadsx_def sint_std_min3)
  have tx1: "1 \<le> sint threadsx" using tx x t xl by simp
  have txx: "sint threadsx \<le> sint xdim" using tx by simp
  have txle: "sint threadsx \<le> sint threads" using tx by simp
  obtain q1 where q1: "div_int threads threadsx = Inr q1"
      "sint q1 = sint threads div sint threadsx"
    using div_int_nonneg[of threadsx threads] tx1 t by auto
  define threadsy where "threadsy = std_min3 ydim (std_max q1 1) ythreadlimit"
  have ty: "sint threadsy =
      min (sint ydim) (min (max (sint threads div sint threadsx) 1) (sint ythreadlimit))"
    by (simp add: threadsy_def sint_std_min3 sint_std_max q1(2))
  have ty1: "1 \<le> sint threadsy" using ty y yl by simp
  have tyy: "sint threadsy \<le> sint ydim" using ty by simp
  have "sint threadsy \<le> max (sint threads div sint threadsx) 1" using ty by simp
  then have pxy: "sint threadsx * sint threadsy \<le> sint threads"
    by (rule greedy_step[OF tx1 txle ty1])
  have pxy1: "1 \<le> sint threadsx * sint threadsy"
    using tx1 ty1 by (metis mult_mono mult_1 zero_le_one order_trans)
  have sxy: "sint (threadsx * threadsy) = sint threadsx * sint threadsy"
    using pxy pxy1 sint_range[of threads]
    by (intro sint_mult_32) (simp_all add: INT_MIN_def)
  obtain q2 where q2: "div_int threads (threadsx * threadsy) = Inr q2"
      "sint q2 = sint threads div (sint threadsx * sint threadsy)"
    using div_int_nonneg[of "threadsx * threadsy" threads] pxy1 t sxy by auto
  define threadsz where "threadsz = std_min3 zdim (std_max q2 1) zthreadlimit"
  have tz: "sint threadsz =
      min (sint zdim)
        (min (max (sint threads div (sint threadsx * sint threadsy)) 1) (sint zthreadlimit))"
    by (simp add: threadsz_def sint_std_min3 sint_std_max q2(2))
  have tz1: "1 \<le> sint threadsz" using tz z zl by simp
  have tzz: "sint threadsz \<le> sint zdim" using tz by simp
  have "sint threadsz \<le> max (sint threads div (sint threadsx * sint threadsy)) 1"
    using tz by simp
  then have pxyz: "sint threadsx * sint threadsy * sint threadsz \<le> sint threads"
    by (rule greedy_step[OF pxy1 pxy tz1])
  have r: "distribute_threads xdim ydim zdim threads xthreadlimit ythreadlimit zthreadlimit =
             Inr (threadsx, threadsy, threadsz)"
    using q1(1) q2(1)
    unfolding distribute_threads_def Let_def threadsx_def[symmetric]
    by (simp add: threadsy_def[symmetric] threadsz_def[symmetric])
  have s: "(sint threadsx, sint threadsy, sint threadsz) =
             spec_threads3D (sint xdim) (sint ydim) (sint zdim) (sint threads)
               (sint xthreadlimit) (sint ythreadlimit) (sint zthreadlimit)"
    unfolding spec_threads3D_def Let_def tx[symmetric] ty[symmetric] tz[symmetric] by simp
  show ?thesis
    using r s tx1 txx ty1 tyy tz1 tzz sxy pxy pxyz by blast
qed


text \<open>The distribution of the blocks when none of the five sums wraps.\<close>

lemma distribute_blocks_value:
  assumes x: "0 < sint xdim" and y: "0 < sint ydim" and z: "0 < sint zdim"
    and tx: "1 \<le> sint threadsx" and ty: "1 \<le> sint threadsy" and tz: "1 \<le> sint threadsz"
    and b: "1 \<le> sint blocks"
    and xl: "1 \<le> sint xgridlimit" and yl: "1 \<le> sint ygridlimit"
    and zl: "1 \<le> sint zgridlimit"
    and spec: "spec_blocks3D (sint xdim) (sint ydim) (sint zdim) (sint blocks)
                 (sint threadsx, sint threadsy, sint threadsz)
                 (sint xgridlimit) (sint ygridlimit) (sint zgridlimit) = (bx, by, bz)"
    and ox: "sint xdim + sint threadsx - 1 \<le> INT_MAX"
    and oy: "sint ydim + sint threadsy - 1 \<le> INT_MAX"
    and oz: "sint zdim + sint threadsz - 1 \<le> INT_MAX"
    and obx: "sint blocks + bx - 1 \<le> INT_MAX"
    and obxy: "sint blocks + bx * by - 1 \<le> INT_MAX"
  shows "\<exists>blocksx blocksy blocksz.
           distribute_blocks xdim ydim zdim blocks (threadsx, threadsy, threadsz)
               xgridlimit ygridlimit zgridlimit = Inr (blocksx, blocksy, blocksz) \<and>
           sint blocksx = bx \<and> sint blocksy = by \<and> sint blocksz = bz \<and>
           1 \<le> bx \<and> 1 \<le> by \<and> 1 \<le> bz \<and>
           sint (blocksx * blocksy) = bx * by \<and> 1 \<le> bx * by"
proof -
  have sbx: "bx = min (sint blocks) (min (ceil_div (sint xdim) (sint threadsx)) (sint xgridlimit))"
    and sby: "by = min (ceil_div (sint blocks) bx)
                     (min (ceil_div (sint ydim) (sint threadsy)) (sint ygridlimit))"
    and sbz: "bz = min (ceil_div (sint blocks) (bx * by))
                     (min (ceil_div (sint zdim) (sint threadsz)) (sint zgridlimit))"
    using spec by (auto simp: spec_blocks3D_def Let_def)
  obtain q3 where q3: "DivUp xdim threadsx = Inr q3"
      "sint q3 = ceil_div (sint xdim) (sint threadsx)"
    using DivUp_exact[of threadsx xdim] x tx ox by auto
  define blocksx where "blocksx = std_min3 blocks q3 xgridlimit"
  have bx: "sint blocksx = bx"
    by (simp add: blocksx_def sint_std_min3 q3(2) sbx)
  have "1 \<le> ceil_div (sint xdim) (sint threadsx)" using x tx by (intro ceil_div_pos) simp_all
  then have bx1: "1 \<le> bx" using sbx b xl by simp
  obtain q4 where q4: "DivUp blocks blocksx = Inr q4" "sint q4 = ceil_div (sint blocks) bx"
    using DivUp_exact[of blocksx blocks] b bx bx1 obx by auto
  obtain q5 where q5: "DivUp ydim threadsy = Inr q5"
      "sint q5 = ceil_div (sint ydim) (sint threadsy)"
    using DivUp_exact[of threadsy ydim] y ty oy by auto
  define blocksy where "blocksy = std_min3 q4 q5 ygridlimit"
  have "by": "sint blocksy = by"
    by (simp add: blocksy_def sint_std_min3 q4(2) q5(2) sby)
  have "1 \<le> ceil_div (sint blocks) bx" using b bx1 by (intro ceil_div_pos) simp_all
  moreover have "1 \<le> ceil_div (sint ydim) (sint threadsy)"
    using y ty by (intro ceil_div_pos) simp_all
  ultimately have by1: "1 \<le> by" using sby yl by simp
  have pxy1: "1 \<le> bx * by"
    using bx1 by1 by (metis mult_mono mult_1 zero_le_one order_trans)
  have sxy: "sint (blocksx * blocksy) = bx * by"
    using sint_mult_32[of blocksx blocksy] bx "by" pxy1 obxy b by (simp add: INT_MIN_def)
  obtain q6 where q6: "DivUp blocks (blocksx * blocksy) = Inr q6"
      "sint q6 = ceil_div (sint blocks) (bx * by)"
    using DivUp_exact[of "blocksx * blocksy" blocks] b sxy pxy1 obxy by auto
  obtain q7 where q7: "DivUp zdim threadsz = Inr q7"
      "sint q7 = ceil_div (sint zdim) (sint threadsz)"
    using DivUp_exact[of threadsz zdim] z tz oz by auto
  define blocksz where "blocksz = std_min3 q6 q7 zgridlimit"
  have bz: "sint blocksz = bz"
    by (simp add: blocksz_def sint_std_min3 q6(2) q7(2) sbz)
  have "1 \<le> ceil_div (sint blocks) (bx * by)" using b pxy1 by (intro ceil_div_pos) simp_all
  moreover have "1 \<le> ceil_div (sint zdim) (sint threadsz)"
    using z tz by (intro ceil_div_pos) simp_all
  ultimately have bz1: "1 \<le> bz" using sbz zl by simp
  have r: "distribute_blocks xdim ydim zdim blocks (threadsx, threadsy, threadsz)
               xgridlimit ygridlimit zgridlimit = Inr (blocksx, blocksy, blocksz)"
    using q3(1) q4(1) q5(1) q6(1) q7(1)
    unfolding distribute_blocks_def Let_def
    by (simp add: blocksx_def[symmetric] blocksy_def[symmetric] blocksz_def[symmetric])
  show ?thesis using r bx "by" bz bx1 by1 bz1 sxy pxy1 by blast
qed


text \<open>
  C9. On the CUDA back end, for positive extents, an occupancy query that succeeds with a
  positive number of threads per block, and per-dimension thread limits of at least 1, the
  statements of \<^verbatim>\<open>GetGpu3DLaunchConfig\<close> that choose the thread counts do not trap, and
  the counts satisfy \<open>threadsx * threadsy * threadsz \<le> thread_per_block\<close>,
  \<open>1 \<le> threadsx \<le> xdim\<close>, \<open>1 \<le> threadsy \<le> ydim\<close> and \<open>1 \<le> threadsz \<le> zdim\<close>; every
  configuration the function returns has exactly these counts as its \<open>thread_per_block\<close>.
\<close>

theorem GetGpu3DLaunchConfig_thread_counts:
  assumes "OccupancyMaxPotentialBlockSize rt func dynamic_shared_memory_size block_size_limit =
             (cudaSuccess, blocks, threads)"
    and "0 < sint xdim" and "0 < sint ydim" and "0 < sint zdim"
    and "1 \<le> sint threads"
    and "1 \<le> sint (maxThreadsDim0 (deviceProp rt))"
    and "1 \<le> sint (maxThreadsDim1 (deviceProp rt))"
    and "1 \<le> sint (maxThreadsDim2 (deviceProp rt))"
  shows "\<exists>threadsx threadsy threadsz.
           distribute_threads xdim ydim zdim threads (maxThreadsDim0 (deviceProp rt))
               (maxThreadsDim1 (deviceProp rt)) (maxThreadsDim2 (deviceProp rt)) =
             Inr (threadsx, threadsy, threadsz) \<and>
           sint threadsx * sint threadsy * sint threadsz \<le> sint threads \<and>
           1 \<le> sint threadsx \<and> sint threadsx \<le> sint xdim \<and>
           1 \<le> sint threadsy \<and> sint threadsy \<le> sint ydim \<and>
           1 \<le> sint threadsz \<and> sint threadsz \<le> sint zdim \<and>
           (\<forall>cfg. GetGpu3DLaunchConfig GOOGLE_CUDA xdim ydim zdim d rt func
                     dynamic_shared_memory_size block_size_limit = Inr cfg \<longrightarrow>
                  thread_per_block cfg = dim3 threadsx threadsy threadsz)"
proof -
  obtain threadsx threadsy threadsz where
    r: "distribute_threads xdim ydim zdim threads (maxThreadsDim0 (deviceProp rt))
          (maxThreadsDim1 (deviceProp rt)) (maxThreadsDim2 (deviceProp rt)) =
        Inr (threadsx, threadsy, threadsz)"
    and b: "1 \<le> sint threadsx" "sint threadsx \<le> sint xdim"
      "1 \<le> sint threadsy" "sint threadsy \<le> sint ydim"
      "1 \<le> sint threadsz" "sint threadsz \<le> sint zdim"
      "sint threadsx * sint threadsy * sint threadsz \<le> sint threads"
    using distribute_threads_value[OF assms(2-8)] by blast
  have "\<forall>cfg. GetGpu3DLaunchConfig GOOGLE_CUDA xdim ydim zdim d rt func
                 dynamic_shared_memory_size block_size_limit = Inr cfg \<longrightarrow>
              thread_per_block cfg = dim3 threadsx threadsy threadsz"
    using assms(1-4) r
    by (auto simp add: GetGpu3DLaunchConfig_def le_def Let_def bind_err_def
        split: sum.splits prod.splits)
  then show ?thesis using r b by blast
qed

theorem GetGpu3DLaunchConfig_thread_counts_witness:
  "OccupancyMaxPotentialBlockSize example_runtime () 0 0 = (cudaSuccess, 13, 1024) \<and>
   0 < sint (512 :: int32) \<and> 0 < sint (2 :: int32) \<and> 0 < sint (100 :: int32) \<and>
   1 \<le> sint (1024 :: int32) \<and>
   1 \<le> sint (maxThreadsDim0 (deviceProp example_runtime)) \<and>
   1 \<le> sint (maxThreadsDim1 (deviceProp example_runtime)) \<and>
   1 \<le> sint (maxThreadsDim2 (deviceProp example_runtime)) \<and>
   GetGpu3DLaunchConfig GOOGLE_CUDA 512 2 100 device_80 example_runtime () 0 0 =
     Inr \<lparr>virtual_thread_count = dim3 512 2 100, thread_per_block = dim3 512 2 1,
          block_count = dim3 1 1 13\<rparr> \<and>
   (\<exists>threadsx threadsy threadsz.
      distribute_threads 512 2 100 1024 1024 1024 64 = Inr (threadsx, threadsy, threadsz) \<and>
      sint threadsx * sint threadsy * sint threadsz \<le> 1024 \<and>
      1 \<le> sint threadsx \<and> sint threadsx \<le> 512 \<and>
      1 \<le> sint threadsy \<and> sint threadsy \<le> 2 \<and>
      1 \<le> sint threadsz \<and> sint threadsz \<le> 100 \<and>
      dim3 512 2 1 = dim3 threadsx threadsy threadsz)"
proof -
  have e: "GetGpu3DLaunchConfig GOOGLE_CUDA 512 2 100 device_80 example_runtime () 0 0 =
     Inr \<lparr>virtual_thread_count = dim3 512 2 100, thread_per_block = dim3 512 2 1,
          block_count = dim3 1 1 13\<rparr>"
    by (simp add: GetGpu3DLaunchConfig_def distribute_threads_def distribute_blocks_def
        example_runtime_def example_prop_def le_def lt_def std_min3_def std_min_def
        std_max_def DivUp_def div_int_def INT_MIN_def signed_divide_int_def)
  show ?thesis
    using GetGpu3DLaunchConfig_thread_counts
      [of example_runtime "()" 0 0 13 1024 512 2 100 device_80] e
    by (simp add: example_runtime_def example_prop_def)
qed


text \<open>The whole function on the CUDA back end when none of the five sums wraps.\<close>

lemma GetGpu3DLaunchConfig_value:
  assumes occ: "OccupancyMaxPotentialBlockSize rt func dynamic_shared_memory_size
                  block_size_limit = (cudaSuccess, blocks, threads)"
    and x: "0 < sint xdim" and y: "0 < sint ydim" and z: "0 < sint zdim"
    and b: "1 \<le> sint blocks" and t: "1 \<le> sint threads"
    and tl: "1 \<le> sint (maxThreadsDim0 (deviceProp rt))"
      "1 \<le> sint (maxThreadsDim1 (deviceProp rt))"
      "1 \<le> sint (maxThreadsDim2 (deviceProp rt))"
    and gl: "1 \<le> sint (maxGridSize0 (deviceProp rt))"
      "1 \<le> sint (maxGridSize1 (deviceProp rt))"
      "1 \<le> sint (maxGridSize2 (deviceProp rt))"
    and st: "spec_threads3D (sint xdim) (sint ydim) (sint zdim) (sint threads)
               (sint (maxThreadsDim0 (deviceProp rt))) (sint (maxThreadsDim1 (deviceProp rt)))
               (sint (maxThreadsDim2 (deviceProp rt))) = (tx, ty, tz)"
    and sb: "spec_blocks3D (sint xdim) (sint ydim) (sint zdim) (sint blocks) (tx, ty, tz)
               (sint (maxGridSize0 (deviceProp rt))) (sint (maxGridSize1 (deviceProp rt)))
               (sint (maxGridSize2 (deviceProp rt))) = (bx, by, bz)"
    and ov: "sint xdim + tx - 1 \<le> INT_MAX" "sint ydim + ty - 1 \<le> INT_MAX"
      "sint zdim + tz - 1 \<le> INT_MAX" "sint blocks + bx - 1 \<le> INT_MAX"
      "sint blocks + bx * by - 1 \<le> INT_MAX"
  shows "\<exists>threadsx threadsy threadsz blocksx blocksy blocksz.
           GetGpu3DLaunchConfig GOOGLE_CUDA xdim ydim zdim d rt func dynamic_shared_memory_size
               block_size_limit =
             Inr \<lparr>virtual_thread_count = dim3 xdim ydim zdim,
                  thread_per_block = dim3 threadsx threadsy threadsz,
                  block_count = dim3 blocksx blocksy blocksz\<rparr> \<and>
           sint threadsx = tx \<and> sint threadsy = ty \<and> sint threadsz = tz \<and>
           sint blocksx = bx \<and> sint blocksy = by \<and> sint blocksz = bz \<and>
           1 \<le> tx \<and> 1 \<le> ty \<and> 1 \<le> tz \<and> 1 \<le> bx \<and> 1 \<le> by \<and> 1 \<le> bz \<and>
           sint (threadsx * threadsy) = tx * ty \<and> 1 \<le> tx * ty \<and>
           sint (blocksx * blocksy) = bx * by \<and> 1 \<le> bx * by"
proof -
  obtain threadsx threadsy threadsz where
    rt: "distribute_threads xdim ydim zdim threads (maxThreadsDim0 (deviceProp rt))
          (maxThreadsDim1 (deviceProp rt)) (maxThreadsDim2 (deviceProp rt)) =
        Inr (threadsx, threadsy, threadsz)"
    and vt: "(sint threadsx, sint threadsy, sint threadsz) =
        spec_threads3D (sint xdim) (sint ydim) (sint zdim) (sint threads)
          (sint (maxThreadsDim0 (deviceProp rt))) (sint (maxThreadsDim1 (deviceProp rt)))
          (sint (maxThreadsDim2 (deviceProp rt)))"
    and t1: "1 \<le> sint threadsx" "1 \<le> sint threadsy" "1 \<le> sint threadsz"
    and pt: "sint (threadsx * threadsy) = sint threadsx * sint threadsy"
    using distribute_threads_value[OF x y z t tl] by blast
  have e: "sint threadsx = tx" "sint threadsy = ty" "sint threadsz = tz"
    using vt st by simp_all
  have pt1: "1 \<le> tx * ty"
    using t1(1,2) e by (metis mult_mono mult_1 zero_le_one order_trans)
  obtain blocksx blocksy blocksz where
    rb: "distribute_blocks xdim ydim zdim blocks (threadsx, threadsy, threadsz)
          (maxGridSize0 (deviceProp rt)) (maxGridSize1 (deviceProp rt))
          (maxGridSize2 (deviceProp rt)) = Inr (blocksx, blocksy, blocksz)"
    and vb: "sint blocksx = bx" "sint blocksy = by" "sint blocksz = bz"
    and b1: "1 \<le> bx" "1 \<le> by" "1 \<le> bz"
    and pb: "sint (blocksx * blocksy) = bx * by" "1 \<le> bx * by"
    using distribute_blocks_value[OF x y z t1 b gl, of bx "by" bz] sb ov
    unfolding e by blast
  have "GetGpu3DLaunchConfig GOOGLE_CUDA xdim ydim zdim d rt func dynamic_shared_memory_size
            block_size_limit =
          Inr \<lparr>virtual_thread_count = dim3 xdim ydim zdim,
               thread_per_block = dim3 threadsx threadsy threadsz,
               block_count = dim3 blocksx blocksy blocksz\<rparr>"
    using occ x y z rt rb by (simp add: GetGpu3DLaunchConfig_def le_def)
  then show ?thesis using e vb t1 b1 pt pt1 pb by auto
qed


text \<open>
  C1. On the CUDA back end, for positive extents, an occupancy query that succeeds with a
  block count and a number of threads per block of at least 1, and thread and grid limits
  of at least 1, \<^verbatim>\<open>GetGpu3DLaunchConfig\<close> returns the thread counts \<open>(tx, ty, tz)\<close> and the
  block counts \<open>(bx, by, bz)\<close> of the specification's greedy distribution and
  \<open>virtual_thread_count = (xdim, ydim, zdim)\<close>, provided none of the sums
  \<open>xdim + tx - 1\<close>, \<open>ydim + ty - 1\<close>, \<open>zdim + tz - 1\<close>, \<open>block_count + bx - 1\<close> and
  \<open>block_count + bx * by - 1\<close> exceeds \<open>2 ^ 31 - 1\<close>. For the extents (4096, 4096, 100),
  the occupancy result (13, 1024), the thread limits (1024, 1024, 64) and the grid limits
  \<open>2 ^ 31 - 1\<close> it returns the threads (1024, 1, 1) and the blocks (4, 4, 1).
\<close>

theorem GetGpu3DLaunchConfig_distribution:
  assumes "OccupancyMaxPotentialBlockSize rt func dynamic_shared_memory_size block_size_limit =
             (cudaSuccess, blocks, threads)"
    and "0 < sint xdim" and "0 < sint ydim" and "0 < sint zdim"
    and "1 \<le> sint blocks" and "1 \<le> sint threads"
    and "1 \<le> sint (maxThreadsDim0 (deviceProp rt))"
    and "1 \<le> sint (maxThreadsDim1 (deviceProp rt))"
    and "1 \<le> sint (maxThreadsDim2 (deviceProp rt))"
    and "1 \<le> sint (maxGridSize0 (deviceProp rt))"
    and "1 \<le> sint (maxGridSize1 (deviceProp rt))"
    and "1 \<le> sint (maxGridSize2 (deviceProp rt))"
    and "spec_threads3D (sint xdim) (sint ydim) (sint zdim) (sint threads)
           (sint (maxThreadsDim0 (deviceProp rt))) (sint (maxThreadsDim1 (deviceProp rt)))
           (sint (maxThreadsDim2 (deviceProp rt))) = (tx, ty, tz)"
    and "spec_blocks3D (sint xdim) (sint ydim) (sint zdim) (sint blocks) (tx, ty, tz)
           (sint (maxGridSize0 (deviceProp rt))) (sint (maxGridSize1 (deviceProp rt)))
           (sint (maxGridSize2 (deviceProp rt))) = (bx, by, bz)"
    and "sint xdim + tx - 1 \<le> INT_MAX" and "sint ydim + ty - 1 \<le> INT_MAX"
    and "sint zdim + tz - 1 \<le> INT_MAX" and "sint blocks + bx - 1 \<le> INT_MAX"
    and "sint blocks + bx * by - 1 \<le> INT_MAX"
  shows "\<exists>cfg. GetGpu3DLaunchConfig GOOGLE_CUDA xdim ydim zdim d rt func
                  dynamic_shared_memory_size block_size_limit = Inr cfg \<and>
               dim3_value (virtual_thread_count cfg) = (sint xdim, sint ydim, sint zdim) \<and>
               dim3_value (thread_per_block cfg) = (tx, ty, tz) \<and>
               dim3_value (block_count cfg) = (bx, by, bz)"
proof -
  obtain threadsx threadsy threadsz blocksx blocksy blocksz where
    r: "GetGpu3DLaunchConfig GOOGLE_CUDA xdim ydim zdim d rt func dynamic_shared_memory_size
            block_size_limit =
          Inr \<lparr>virtual_thread_count = dim3 xdim ydim zdim,
               thread_per_block = dim3 threadsx threadsy threadsz,
               block_count = dim3 blocksx blocksy blocksz\<rparr>"
    and v: "sint threadsx = tx" "sint threadsy = ty" "sint threadsz = tz"
      "sint blocksx = bx" "sint blocksy = by" "sint blocksz = bz"
    and p: "1 \<le> tx" "1 \<le> ty" "1 \<le> tz" "1 \<le> bx" "1 \<le> by" "1 \<le> bz"
    using GetGpu3DLaunchConfig_value[OF assms, of d] by blast
  have u: "uint threadsx = tx" "uint threadsy = ty" "uint threadsz = tz"
      "uint blocksx = bx" "uint blocksy = by" "uint blocksz = bz"
    using v p by (simp_all add: uint_sint_32)
  have w: "uint xdim = sint xdim" "uint ydim = sint ydim" "uint zdim = sint zdim"
    using assms(2-4) by (simp_all add: uint_sint_32)
  show ?thesis using r u w by (simp add: dim3_value_def)
qed

theorem GetGpu3DLaunchConfig_distribution_witness:
  "OccupancyMaxPotentialBlockSize example_runtime () 0 0 = (cudaSuccess, 13, 1024) \<and>
   0 < sint (4096 :: int32) \<and> 0 < sint (100 :: int32) \<and>
   1 \<le> sint (13 :: int32) \<and> 1 \<le> sint (1024 :: int32) \<and>
   deviceProp example_runtime = example_prop \<and>
   1 \<le> sint (maxThreadsDim0 example_prop) \<and> 1 \<le> sint (maxThreadsDim1 example_prop) \<and>
   1 \<le> sint (maxThreadsDim2 example_prop) \<and> 1 \<le> sint (maxGridSize0 example_prop) \<and>
   1 \<le> sint (maxGridSize1 example_prop) \<and> 1 \<le> sint (maxGridSize2 example_prop) \<and>
   spec_threads3D 4096 4096 100 1024 1024 1024 64 = (1024, 1, 1) \<and>
   spec_blocks3D 4096 4096 100 13 (1024, 1, 1) 2147483647 2147483647 2147483647 = (4, 4, 1) \<and>
   4096 + 1024 - 1 \<le> INT_MAX \<and> 4096 + 1 - 1 \<le> INT_MAX \<and> 100 + 1 - 1 \<le> INT_MAX \<and>
   13 + 4 - 1 \<le> INT_MAX \<and> 13 + 4 * 4 - 1 \<le> INT_MAX \<and>
   (\<exists>cfg. GetGpu3DLaunchConfig GOOGLE_CUDA 4096 4096 100 device_80 example_runtime () 0 0 =
            Inr cfg \<and>
          dim3_value (virtual_thread_count cfg) = (4096, 4096, 100) \<and>
          dim3_value (thread_per_block cfg) = (1024, 1, 1) \<and>
          dim3_value (block_count cfg) = (4, 4, 1))"
proof -
  have occ: "OccupancyMaxPotentialBlockSize example_runtime () 0 0 = (cudaSuccess, 13, 1024)"
    and dp: "deviceProp example_runtime = example_prop"
    by (simp_all add: example_runtime_def)
  have lim: "sint (maxThreadsDim0 example_prop) = 1024" "sint (maxThreadsDim1 example_prop) = 1024"
      "sint (maxThreadsDim2 example_prop) = 64" "sint (maxGridSize0 example_prop) = 2147483647"
      "sint (maxGridSize1 example_prop) = 2147483647"
      "sint (maxGridSize2 example_prop) = 2147483647"
    by (simp_all add: example_prop_def)
  have st: "spec_threads3D 4096 4096 100 1024 1024 1024 64 = (1024, 1, 1)"
    by code_simp
  have sb: "spec_blocks3D 4096 4096 100 13 (1024, 1, 1) 2147483647 2147483647 2147483647 =
              (4, 4, 1)"
    by code_simp
  show ?thesis
    using GetGpu3DLaunchConfig_distribution
      [of example_runtime "()" 0 0 13 1024 4096 4096 100 1024 1 1 4 4 1 device_80]
    by (simp add: occ dp lim st sb INT_MAX_def)
qed

theorem GetGpu3DLaunchConfig_distribution_counterexample:
  "OccupancyMaxPotentialBlockSize example_runtime () 0 0 = (cudaSuccess, 13, 1024) \<and>
   GetGpu3DLaunchConfig GOOGLE_CUDA 512 2147483647 100 device_80 example_runtime () 0 0 =
     Inr \<lparr>virtual_thread_count = dim3 512 2147483647 100,
          thread_per_block = dim3 512 2 1,
          block_count = dim3 1 3221225472 0\<rparr> \<and>
   spec_threads3D 512 2147483647 100 1024 1024 1024 64 = (512, 2, 1) \<and>
   spec_blocks3D 512 2147483647 100 13 (512, 2, 1) 2147483647 2147483647 2147483647 =
     (1, 13, 1) \<and>
   dim3_value (dim3 1 3221225472 0) \<noteq> (1, 13, 1)"
proof -
  have "OccupancyMaxPotentialBlockSize example_runtime () 0 0 = (cudaSuccess, 13, 1024)"
    by (simp add: example_runtime_def)
  moreover have
    "GetGpu3DLaunchConfig GOOGLE_CUDA 512 2147483647 100 device_80 example_runtime () 0 0 =
       Inr \<lparr>virtual_thread_count = dim3 512 2147483647 100,
            thread_per_block = dim3 512 2 1,
            block_count = dim3 1 3221225472 0\<rparr>"
    by (simp add: GetGpu3DLaunchConfig_def distribute_threads_def distribute_blocks_def
        example_runtime_def example_prop_def le_def lt_def std_min3_def std_min_def
        std_max_def DivUp_def div_int_def INT_MIN_def signed_divide_int_def)
  moreover have "spec_threads3D 512 2147483647 100 1024 1024 1024 64 = (512, 2, 1)"
    by code_simp
  moreover have
    "spec_blocks3D 512 2147483647 100 13 (512, 2, 1) 2147483647 2147483647 2147483647 =
       (1, 13, 1)"
    by code_simp
  moreover have "dim3_value (dim3 1 3221225472 0) \<noteq> (1, 13, 1)"
    by (simp add: dim3_value_def)
  ultimately show ?thesis by (intro conjI)
qed

section \<open>No division traps\<close>










end
